theory Spec2Isabelle
  imports Main
begin

section \<open>JavaScript values\<close>

text \<open>
  The gateway handles JSON payloads, decoded token claims and request bodies as plain
  JavaScript values. Numbers are modelled as integers (the handlers only pass them
  through, test them for truthiness and count array elements); an object is the list of
  its properties, looked up by the first binding of a key.
\<close>

datatype jsval =
    JUndefined
  | JNull
  | JBool bool
  | JNum int
  | JStr string
  | JArr "jsval list"
  | JObj "(string \<times> jsval) list"

text \<open>An axios response as the handlers read it: \<open>response.status\<close>, \<open>response.data\<close>.\<close>

record http_response =
  status :: int
  data :: jsval

text \<open>
  What a \<open>try\<close> block can catch. An axios rejection carries \<open>error.response\<close> when the
  backend answered with an error status, and nothing when the transport failed.
\<close>

datatype exn =
    TypeError
  | RangeError
  | AxiosError "http_response option"

text \<open>Sequencing of computations that may throw.\<close>

definition andThen :: "exn + 'a \<Rightarrow> ('a \<Rightarrow> exn + 'b) \<Rightarrow> exn + 'b" where
  "andThen m f = (case m of Inl e \<Rightarrow> Inl e | Inr v \<Rightarrow> f v)"

text \<open>Truthiness, as \<open>!x\<close>, \<open>x && y\<close> and \<open>x || y\<close> test it.\<close>

fun truthy :: "jsval \<Rightarrow> bool" where
  "truthy JUndefined = False"
| "truthy JNull = False"
| "truthy (JBool b) = b"
| "truthy (JNum n) = (n \<noteq> 0)"
| "truthy (JStr s) = (s \<noteq> [])"
| "truthy (JArr xs) = True"
| "truthy (JObj kvs) = True"

text \<open>
  Property read \<open>v.k\<close> for the data properties the handlers name (\<open>data\<close>, \<open>role\<close>,
  \<open>id\<close>, \<open>pagination\<close>, \<open>total_count\<close>, \<open>booking_date\<close>, the booking fields): a
  TypeError on \<open>undefined\<close> and \<open>null\<close>, \<open>undefined\<close> on any other value without the
  property.
\<close>

definition nullish :: "jsval \<Rightarrow> bool" where
  "nullish v = (v = JUndefined \<or> v = JNull)"

fun propOf :: "jsval \<Rightarrow> string \<Rightarrow> jsval" where
  "propOf (JObj kvs) k = (case map_of kvs k of Some v \<Rightarrow> v | None \<Rightarrow> JUndefined)"
| "propOf v k = JUndefined"

definition getProp :: "jsval \<Rightarrow> string \<Rightarrow> exn + jsval" where
  "getProp v k = (if nullish v then Inl TypeError else Inr (propOf v k))"

text \<open>Optional chaining \<open>v?.k\<close>.\<close>

definition getPropOpt :: "jsval \<Rightarrow> string \<Rightarrow> exn + jsval" where
  "getPropOpt v k = (if nullish v then Inr JUndefined else getProp v k)"

text \<open>\<open>v.length\<close>: arrays and strings have it built in.\<close>

fun getLength :: "jsval \<Rightarrow> exn + jsval" where
  "getLength (JArr xs) = Inr (JNum (int (length xs)))"
| "getLength (JStr s) = Inr (JNum (int (length s)))"
| "getLength v = getProp v ''length''"

text \<open>\<open>a || b\<close> on values.\<close>

definition orElse :: "jsval \<Rightarrow> jsval \<Rightarrow> jsval" where
  "orElse a b = (if truthy a then a else b)"

section \<open>Requests, responses and the identity annotator\<close>

record request =
  authorization :: "string option"
  user :: jsval
  params_id :: string
  body :: jsval
  path :: string
  correlationId :: string

text \<open>What \<open>res.status(n).json(v)\<close> sends; \<open>res.json(v)\<close> alone sends status 200.\<close>

record response =
  res_status :: int
  res_json :: jsval

text \<open>A middleware either hands the request on with \<open>next()\<close> or ends it with a response.\<close>

datatype middleware_result = Next request | Ended response

text \<open>
  \<open>jwt.verify(token, secret, {issuer, audience})\<close> of the jsonwebtoken package: the
  decoded payload, or the failure it throws.
\<close>

datatype jwt_failure =
    TokenExpired
  | InvalidSignature
  | IssuerMismatch
  | AudienceMismatch
  | Malformed

type_synonym jwt_verifier = "string \<Rightarrow> string \<Rightarrow> string \<Rightarrow> string \<Rightarrow> jwt_failure + jsval"

definition startsWith :: "string \<Rightarrow> string \<Rightarrow> bool" where
  "startsWith s p = (take (length p) s = p)"

definition substring :: "string \<Rightarrow> nat \<Rightarrow> string" where
  "substring s n = drop n s"

definition verifyToken :: "jwt_verifier \<Rightarrow> string \<Rightarrow> request \<Rightarrow> middleware_result" where
  "verifyToken jwt_verify JWT_SECRET req =
     (case authorization req of
        None \<Rightarrow> Next req
      | Some authHeader \<Rightarrow>
          if authHeader = [] \<or> \<not> startsWith authHeader ''Bearer '' then Next req
          else
            let token = substring authHeader 7 in
            (case jwt_verify token JWT_SECRET ''fitsync-user-service'' ''fitsync-api'' of
               Inr decoded \<Rightarrow> Next (req\<lparr>user := decoded\<rparr>)
             | Inl error \<Rightarrow> Next req))"

text \<open>
  A route registered as \<open>app.get(path, verifyToken, handler)\<close>: the annotator runs
  first, and the handler sees the request it hands on.
\<close>

definition withVerifyToken ::
  "jwt_verifier \<Rightarrow> string \<Rightarrow> (request \<Rightarrow> response \<times> 'c list) \<Rightarrow> request \<Rightarrow> response \<times> 'c list" where
  "withVerifyToken jwt_verify JWT_SECRET handler req =
     (case verifyToken jwt_verify JWT_SECRET req of
        Next req' \<Rightarrow> handler req'
      | Ended res \<Rightarrow> (res, []))"

section \<open>Template literals\<close>

text \<open>
  \<open>`${v}`\<close> converts \<open>v\<close> with ToString, which can throw.

  A number below \<open>1e21\<close> in magnitude prints its decimal digits. From \<open>1e21\<close> on
  JavaScript prints the exponent form of the double; that rendering is the runtime's, and
  \<open>expForm m\<close> stands for it.
\<close>

definition digit_char :: "nat \<Rightarrow> char" where
  "digit_char d = char_of (48 + d)"

fun dec_nat :: "nat \<Rightarrow> string" where
  "dec_nat n = (if n < 10 then [digit_char n] else dec_nat (n div 10) @ [digit_char (n mod 10)])"

declare dec_nat.simps [simp del]

definition Number_toString :: "(nat \<Rightarrow> string) \<Rightarrow> int \<Rightarrow> string" where
  "Number_toString expForm x =
     (let m = nat \<bar>x\<bar>;
          digits = (if m < 10 ^ 21 then dec_nat m else expForm m)
      in if x < 0 then CHR ''-'' # digits else digits)"

text \<open>
  \<open>Array.prototype.join\<close> with the default separator, over the converted elements in
  order: the first conversion that throws ends it.
\<close>

fun join_comma :: "(exn + string) list \<Rightarrow> exn + string" where
  "join_comma [] = Inr []"
| "join_comma (r # rs) =
     andThen r (\<lambda>s.
     andThen (join_comma rs) (\<lambda>t.
       Inr (if rs = [] then s else s @ '','' @ t)))"

text \<open>
  An object is converted by its \<open>toString\<close> method, then by \<open>valueOf\<close>. An object
  parsed from JSON inherits \<open>Object.prototype.toString\<close>, which gives
  \<open>[object Object]\<close>, unless it has a key \<open>toString\<close> of its own: that value is not a
  function, \<open>valueOf\<close> returns the object itself, and the conversion throws a TypeError.
  An array joins its elements, with \<open>undefined\<close> and \<open>null\<close> as the empty string.
\<close>

fun ToString :: "(nat \<Rightarrow> string) \<Rightarrow> jsval \<Rightarrow> exn + string" where
  "ToString expForm JUndefined = Inr ''undefined''"
| "ToString expForm JNull = Inr ''null''"
| "ToString expForm (JBool b) = Inr (if b then ''true'' else ''false'')"
| "ToString expForm (JNum n) = Inr (Number_toString expForm n)"
| "ToString expForm (JStr s) = Inr s"
| "ToString expForm (JArr xs) =
     join_comma (map (\<lambda>x. if nullish x then Inr [] else ToString expForm x) xs)"
| "ToString expForm (JObj kvs) =
     (if ''toString'' \<in> set (map fst kvs) then Inl TypeError else Inr ''[object Object]'')"

section \<open>Configuration and backend calls\<close>

text \<open>\<open>process.env\<close>, and \<open>process.env.X || d\<close> for a string default.\<close>

type_synonym env = "string \<Rightarrow> string option"

definition env_or :: "string option \<Rightarrow> string \<Rightarrow> string" where
  "env_or v d = (case v of None \<Rightarrow> d | Some s \<Rightarrow> if s = [] then d else s)"

record services =
  user_service :: string
  training_service :: string
  schedule_service :: string
  progress_service :: string
  notification_service :: string

definition services_of :: "env \<Rightarrow> services" where
  "services_of e =
     \<lparr> user_service = env_or (e ''USER_SERVICE_URL'') ''http://localhost:3001'',
       training_service = env_or (e ''TRAINING_SERVICE_URL'') ''http://localhost:3002'',
       schedule_service = env_or (e ''SCHEDULE_SERVICE_URL'') ''http://localhost:8003'',
       progress_service = env_or (e ''PROGRESS_SERVICE_URL'') ''http://localhost:8004'',
       notification_service = env_or (e ''NOTIFICATION_SERVICE_URL'') ''http://localhost:3005'' \<rparr>"

definition JWT_SECRET_of :: "env \<Rightarrow> string" where
  "JWT_SECRET_of e = env_or (e ''JWT_SECRET'') ''your-super-secret-jwt-key''"

text \<open>
  One axios call: method, URL, the \<open>Authorization\<close> header it forwards, and the body it
  posts (\<open>undefined\<close> for a GET).
\<close>

record backend_call =
  call_method :: string
  call_url :: string
  call_Authorization :: "string option"
  call_data :: jsval

definition axios_get :: "string \<Rightarrow> string option \<Rightarrow> backend_call" where
  "axios_get url token =
     \<lparr> call_method = ''GET'', call_url = url, call_Authorization = token,
       call_data = JUndefined \<rparr>"

definition axios_post :: "string \<Rightarrow> jsval \<Rightarrow> string option \<Rightarrow> backend_call" where
  "axios_post url payload token =
     \<lparr> call_method = ''POST'', call_url = url, call_Authorization = token,
       call_data = payload \<rparr>"

text \<open>
  How a call settles: fulfilled with the response, or rejected with an error whose
  \<open>response\<close> is present only when the backend itself answered.
\<close>

datatype settled = Fulfilled http_response | Rejected "http_response option"

type_synonym backend = "backend_call \<Rightarrow> settled"

section \<open>Envelopes\<close>

definition error_envelope :: "string \<Rightarrow> string \<Rightarrow> jsval" where
  "error_envelope code message =
     JObj [(''success'', JBool False),
           (''error'', JObj [(''code'', JStr code), (''message'', JStr message)])]"

definition forbidden :: "string \<Rightarrow> response" where
  "forbidden message = \<lparr> res_status = 403, res_json = error_envelope ''FORBIDDEN'' message \<rparr>"

definition dashboard_error :: response where
  "dashboard_error =
     \<lparr> res_status = 500,
       res_json = error_envelope ''DASHBOARD_ERROR'' ''Failed to load dashboard'' \<rparr>"

definition success_envelope :: "jsval \<Rightarrow> string \<Rightarrow> response" where
  "success_envelope payload now =
     \<lparr> res_status = 200,
       res_json = JObj [(''success'', JBool True), (''data'', payload),
                        (''timestamp'', JStr now)] \<rparr>"

text \<open>\<open>slot.status === 'fulfilled' ? slot.value.data.data : fallback\<close>\<close>

definition slot_data :: "settled \<Rightarrow> jsval \<Rightarrow> exn + jsval" where
  "slot_data slot fallback =
     (case slot of
        Fulfilled r \<Rightarrow> getProp (data r) ''data''
      | Rejected reason \<Rightarrow> Inr fallback)"

section \<open>Client dashboard\<close>

text \<open>\<open>req.user && req.user.role === 'client' && req.user.id !== id\<close>\<close>

definition client_denied :: "request \<Rightarrow> exn + bool" where
  "client_denied req =
     (if truthy (user req) then
        andThen (getProp (user req) ''role'') (\<lambda>role.
          if role = JStr ''client'' then
            andThen (getProp (user req) ''id'') (\<lambda>uid. Inr (uid \<noteq> JStr (params_id req)))
          else Inr False)
      else Inr False)"

definition client_profile_call :: "services \<Rightarrow> request \<Rightarrow> backend_call" where
  "client_profile_call sv req =
     axios_get (user_service sv @ ''/api/users/'' @ params_id req) (authorization req)"

definition client_programs_call :: "services \<Rightarrow> request \<Rightarrow> backend_call" where
  "client_programs_call sv req =
     axios_get (training_service sv @ ''/api/programs?client_id='' @ params_id req @ ''&limit=5'')
       (authorization req)"

definition client_bookings_call :: "services \<Rightarrow> request \<Rightarrow> backend_call" where
  "client_bookings_call sv req =
     axios_get (schedule_service sv @ ''/api/bookings?client_id='' @ params_id req
                  @ ''&status=scheduled&limit=5'') (authorization req)"

definition client_analytics_call :: "services \<Rightarrow> request \<Rightarrow> backend_call" where
  "client_analytics_call sv req =
     axios_get (progress_service sv @ ''/api/analytics/client/'' @ params_id req)
       (authorization req)"

definition client_calls :: "services \<Rightarrow> request \<Rightarrow> backend_call list" where
  "client_calls sv req =
     [client_profile_call sv req, client_programs_call sv req,
      client_bookings_call sv req, client_analytics_call sv req]"

definition client_payload :: "settled \<Rightarrow> settled \<Rightarrow> settled \<Rightarrow> settled \<Rightarrow> exn + jsval" where
  "client_payload profile programs bookings analytics =
     andThen (slot_data profile JNull) (\<lambda>v1.
     andThen (slot_data programs (JArr [])) (\<lambda>v2.
     andThen (slot_data bookings (JArr [])) (\<lambda>v3.
     andThen (slot_data analytics JNull) (\<lambda>v4.
       Inr (JObj [(''profile'', v1), (''active_programs'', v2),
                  (''upcoming_bookings'', v3), (''progress_summary'', v4)])))))"

text \<open>
  The handler of \<open>GET /api/dashboard/client/:id\<close>. \<open>now\<close> is what
  \<open>new Date().toISOString()\<close> gives when the response is built. The result is the
  response sent and the backend calls issued, in order.
\<close>

definition clientDashboard ::
  "services \<Rightarrow> backend \<Rightarrow> string \<Rightarrow> request \<Rightarrow> response \<times> backend_call list" where
  "clientDashboard sv backend now req =
     (case client_denied req of
        Inl e \<Rightarrow> (dashboard_error, [])
      | Inr denied \<Rightarrow>
          if denied then (forbidden ''Cannot access other client dashboards'', [])
          else
            (case client_payload (backend (client_profile_call sv req))
                                 (backend (client_programs_call sv req))
                                 (backend (client_bookings_call sv req))
                                 (backend (client_analytics_call sv req)) of
               Inl e \<Rightarrow> (dashboard_error, client_calls sv req)
             | Inr payload \<Rightarrow> (success_envelope payload now, client_calls sv req)))"

section \<open>Trainer dashboard\<close>

text \<open>\<open>req.user && req.user.role === 'trainer' && req.user.id !== id\<close>\<close>

definition trainer_denied :: "request \<Rightarrow> exn + bool" where
  "trainer_denied req =
     (if truthy (user req) then
        andThen (getProp (user req) ''role'') (\<lambda>role.
          if role = JStr ''trainer'' then
            andThen (getProp (user req) ''id'') (\<lambda>uid. Inr (uid \<noteq> JStr (params_id req)))
          else Inr False)
      else Inr False)"

definition trainer_profile_call :: "services \<Rightarrow> request \<Rightarrow> backend_call" where
  "trainer_profile_call sv req =
     axios_get (user_service sv @ ''/api/users/'' @ params_id req) (authorization req)"

definition trainer_programs_call :: "services \<Rightarrow> request \<Rightarrow> backend_call" where
  "trainer_programs_call sv req =
     axios_get (training_service sv @ ''/api/programs?trainer_id='' @ params_id req
                  @ ''&status=active&limit=10'') (authorization req)"

definition trainer_bookings_call :: "services \<Rightarrow> request \<Rightarrow> backend_call" where
  "trainer_bookings_call sv req =
     axios_get (schedule_service sv @ ''/api/bookings?trainer_id='' @ params_id req
                  @ ''&limit=20'') (authorization req)"

definition trainer_clients_call :: "services \<Rightarrow> request \<Rightarrow> backend_call" where
  "trainer_clients_call sv req =
     axios_get (user_service sv @ ''/api/users?role=client&limit=50'') (authorization req)"

definition trainer_calls :: "services \<Rightarrow> request \<Rightarrow> backend_call list" where
  "trainer_calls sv req =
     [trainer_profile_call sv req, trainer_programs_call sv req,
      trainer_bookings_call sv req, trainer_clients_call sv req]"

text \<open>\<open>s.split('T')[0]\<close>: the part of \<open>s\<close> before the first \<open>T\<close>.\<close>

definition split_T_0 :: "string \<Rightarrow> string" where
  "split_T_0 s = takeWhile (\<lambda>c. c \<noteq> CHR ''T'') s"

text \<open>
  The JavaScript \<open>Date\<close> is the runtime's: \<open>toISO v\<close> stands for
  \<open>new Date(v).toISOString()\<close>, which throws a RangeError (\<open>None\<close>) when \<open>v\<close> does not
  parse as a date.

  The filter callback:
  \<open>b.booking_date === today || new Date(b.booking_date).toISOString().split('T')[0] === today\<close>
\<close>

definition isToday :: "(jsval \<Rightarrow> string option) \<Rightarrow> string \<Rightarrow> jsval \<Rightarrow> exn + bool" where
  "isToday toISO today b =
     andThen (getProp b ''booking_date'') (\<lambda>d.
       if d = JStr today then Inr True
       else (case toISO d of
               None \<Rightarrow> Inl RangeError
             | Some stamp \<Rightarrow> Inr (split_T_0 stamp = today)))"

text \<open>\<open>Array.prototype.filter\<close> with a callback that may throw: elements in order.\<close>

fun filter_js :: "('a \<Rightarrow> exn + bool) \<Rightarrow> 'a list \<Rightarrow> exn + 'a list" where
  "filter_js p [] = Inr []"
| "filter_js p (x # xs) =
     (case p x of
        Inl e \<Rightarrow> Inl e
      | Inr keep \<Rightarrow>
          (case filter_js p xs of
             Inl e \<Rightarrow> Inl e
           | Inr ys \<Rightarrow> Inr (if keep then x # ys else ys)))"

text \<open>
  \<open>let todaySchedule = []; if (todayBookings.status === 'fulfilled') todaySchedule =
  todayBookings.value.data.data.filter(...)\<close>. Only an array has \<open>filter\<close>.
\<close>

definition todaySchedule ::
  "(jsval \<Rightarrow> string option) \<Rightarrow> string \<Rightarrow> settled \<Rightarrow> exn + jsval list" where
  "todaySchedule toISO today todayBookings =
     (case todayBookings of
        Rejected reason \<Rightarrow> Inr []
      | Fulfilled r \<Rightarrow>
          andThen (getProp (data r) ''data'') (\<lambda>bs.
            case bs of
              JArr xs \<Rightarrow> filter_js (isToday toISO today) xs
            | _ \<Rightarrow> Inl TypeError))"

text \<open>\<open>programs.status === 'fulfilled' ? programs.value.data.data.length : 0\<close>\<close>

definition slot_data_length :: "settled \<Rightarrow> exn + jsval" where
  "slot_data_length slot =
     (case slot of
        Fulfilled r \<Rightarrow> andThen (getProp (data r) ''data'') getLength
      | Rejected reason \<Rightarrow> Inr (JNum 0))"

definition trainer_payload ::
  "(jsval \<Rightarrow> string option) \<Rightarrow> string \<Rightarrow> settled \<Rightarrow> settled \<Rightarrow> settled \<Rightarrow> exn + jsval" where
  "trainer_payload toISO today profile programs todayBookings =
     andThen (todaySchedule toISO today todayBookings) (\<lambda>sched.
     andThen (slot_data profile JNull) (\<lambda>v1.
     andThen (slot_data_length programs) (\<lambda>v2.
     andThen (slot_data programs (JArr [])) (\<lambda>v4.
       Inr (JObj [(''profile'', v1), (''active_clients'', v2),
                  (''today_schedule'', JArr sched), (''recent_programs'', v4)])))))"

text \<open>
  The handler of \<open>GET /api/dashboard/trainer/:id\<close>. \<open>now0\<close> is the clock reading
  \<open>new Date().toISOString()\<close> taken before the fan-out, \<open>now\<close> the one taken for the
  response. The fourth call (the client list) is issued and its result is not used.
\<close>

definition trainerDashboard ::
  "services \<Rightarrow> backend \<Rightarrow> (jsval \<Rightarrow> string option) \<Rightarrow> string \<Rightarrow> string \<Rightarrow> request
     \<Rightarrow> response \<times> backend_call list" where
  "trainerDashboard sv backend toISO now0 now req =
     (case trainer_denied req of
        Inl e \<Rightarrow> (dashboard_error, [])
      | Inr denied \<Rightarrow>
          if denied then (forbidden ''Cannot access other trainer dashboards'', [])
          else
            let today = split_T_0 now0 in
            (case trainer_payload toISO today (backend (trainer_profile_call sv req))
                                  (backend (trainer_programs_call sv req))
                                  (backend (trainer_bookings_call sv req)) of
               Inl e \<Rightarrow> (dashboard_error, trainer_calls sv req)
             | Inr payload \<Rightarrow> (success_envelope payload now, trainer_calls sv req)))"

section \<open>Admin dashboard\<close>

text \<open>\<open>req.user && req.user.role !== 'admin'\<close>\<close>

definition admin_denied :: "request \<Rightarrow> exn + bool" where
  "admin_denied req =
     (if truthy (user req) then
        andThen (getProp (user req) ''role'') (\<lambda>role. Inr (role \<noteq> JStr ''admin''))
      else Inr False)"

definition admin_users_call :: "services \<Rightarrow> request \<Rightarrow> backend_call" where
  "admin_users_call sv req =
     axios_get (user_service sv @ ''/api/users?limit=1'') (authorization req)"

definition admin_trainers_call :: "services \<Rightarrow> request \<Rightarrow> backend_call" where
  "admin_trainers_call sv req =
     axios_get (user_service sv @ ''/api/users?role=trainer&limit=1'') (authorization req)"

definition admin_clients_call :: "services \<Rightarrow> request \<Rightarrow> backend_call" where
  "admin_clients_call sv req =
     axios_get (user_service sv @ ''/api/users?role=client&limit=1'') (authorization req)"

definition admin_programs_call :: "services \<Rightarrow> request \<Rightarrow> backend_call" where
  "admin_programs_call sv req =
     axios_get (training_service sv @ ''/api/programs?limit=1'') (authorization req)"

definition admin_calls :: "services \<Rightarrow> request \<Rightarrow> backend_call list" where
  "admin_calls sv req =
     [admin_users_call sv req, admin_trainers_call sv req,
      admin_clients_call sv req, admin_programs_call sv req]"

text \<open>
  \<open>slot.status === 'fulfilled' ? slot.value.data.pagination?.total_count || 0 : 0\<close>
\<close>

definition slot_total_count :: "settled \<Rightarrow> exn + jsval" where
  "slot_total_count slot =
     (case slot of
        Fulfilled r \<Rightarrow>
          andThen (getProp (data r) ''pagination'') (\<lambda>pg.
          andThen (getPropOpt pg ''total_count'') (\<lambda>n.
            Inr (orElse n (JNum 0))))
      | Rejected reason \<Rightarrow> Inr (JNum 0))"

definition admin_payload :: "settled \<Rightarrow> settled \<Rightarrow> settled \<Rightarrow> settled \<Rightarrow> exn + jsval" where
  "admin_payload users trainers clients programs =
     andThen (slot_total_count users) (\<lambda>v1.
     andThen (slot_total_count trainers) (\<lambda>v2.
     andThen (slot_total_count clients) (\<lambda>v3.
     andThen (slot_total_count programs) (\<lambda>v4.
       Inr (JObj [(''total_users'', v1), (''total_trainers'', v2),
                  (''total_clients'', v3), (''total_programs'', v4)])))))"

text \<open>The handler of \<open>GET /api/dashboard/admin\<close>.\<close>

definition adminDashboard ::
  "services \<Rightarrow> backend \<Rightarrow> string \<Rightarrow> request \<Rightarrow> response \<times> backend_call list" where
  "adminDashboard sv backend now req =
     (case admin_denied req of
        Inl e \<Rightarrow> (dashboard_error, [])
      | Inr denied \<Rightarrow>
          if denied then (forbidden ''Admin access required'', [])
          else
            (case admin_payload (backend (admin_users_call sv req))
                                (backend (admin_trainers_call sv req))
                                (backend (admin_clients_call sv req))
                                (backend (admin_programs_call sv req)) of
               Inl e \<Rightarrow> (dashboard_error, admin_calls sv req)
             | Inr payload \<Rightarrow> (success_envelope payload now, admin_calls sv req)))"

section \<open>Validated booking creation\<close>

definition invalid_trainer :: response where
  "invalid_trainer =
     \<lparr> res_status = 400, res_json = error_envelope ''INVALID_TRAINER'' ''Invalid trainer ID'' \<rparr>"

definition booking_failed :: response where
  "booking_failed =
     \<lparr> res_status = 500,
       res_json = error_envelope ''BOOKING_FAILED'' ''Failed to create booking'' \<rparr>"

text \<open>
  \<open>const { trainer_id, client_id, booking_date, start_time, end_time, type, gym_id, notes }
  = req.body\<close>: eight property reads (a TypeError when the body is \<open>undefined\<close> or
  \<open>null\<close>).
\<close>

record booking_fields =
  trainer_id :: jsval
  client_id :: jsval
  booking_date :: jsval
  start_time :: jsval
  end_time :: jsval
  type :: jsval
  gym_id :: jsval
  notes_f :: jsval

definition destructure_body :: "jsval \<Rightarrow> booking_fields" where
  "destructure_body b =
     \<lparr> trainer_id = propOf b ''trainer_id'',
       client_id = propOf b ''client_id'',
       booking_date = propOf b ''booking_date'',
       start_time = propOf b ''start_time'',
       end_time = propOf b ''end_time'',
       type = propOf b ''type'',
       gym_id = propOf b ''gym_id'',
       notes_f = propOf b ''notes'' \<rparr>"

text \<open>
  The trainer lookup on the user service. Building its URL
  \<open>`${services.user}/api/users/${trainer_id}`\<close> converts \<open>trainer_id\<close> to a string,
  which throws before any call when it cannot be converted.
\<close>

definition booking_lookup_call ::
  "(nat \<Rightarrow> string) \<Rightarrow> services \<Rightarrow> string option \<Rightarrow> booking_fields \<Rightarrow> exn + backend_call" where
  "booking_lookup_call expForm sv token f =
     andThen (ToString expForm (trainer_id f)) (\<lambda>t.
       Inr (axios_get (user_service sv @ ''/api/users/'' @ t) token))"

text \<open>The create call on the schedule service, with the object literal it posts.\<close>

definition booking_create_call :: "services \<Rightarrow> string option \<Rightarrow> booking_fields \<Rightarrow> backend_call" where
  "booking_create_call sv token f =
     axios_post (schedule_service sv @ ''/api/bookings'')
       (JObj [(''trainer_id'', trainer_id f),
              (''booking_date'', booking_date f),
              (''start_time'', start_time f),
              (''end_time'', end_time f),
              (''type'', type f),
              (''gym_id'', gym_id f),
              (''notes'', notes_f f)])
       token"

text \<open>
  The \<open>try\<close> block of \<open>POST /api/bookings/validated\<close>: the response it sends or the
  exception it throws, with the backend calls issued. \<open>.catch(() => null)\<close> turns every
  rejection of the trainer lookup into \<open>null\<close>.
\<close>

definition validatedBooking_try ::
  "(nat \<Rightarrow> string) \<Rightarrow> services \<Rightarrow> backend \<Rightarrow> request
     \<Rightarrow> (exn + response) \<times> backend_call list" where
  "validatedBooking_try expForm sv backend req =
     (let token = authorization req in
      if nullish (body req) then (Inl TypeError, [])
      else
        let f = destructure_body (body req) in
        (case booking_lookup_call expForm sv token f of
           Inl e \<Rightarrow> (Inl e, [])
         | Inr lookup \<Rightarrow>
             let trainerCheck = (case backend lookup of
                                   Fulfilled r \<Rightarrow> Some r
                                 | Rejected reason \<Rightarrow> None)
             in
             (case trainerCheck of
                None \<Rightarrow> (Inr invalid_trainer, [lookup])
              | Some r \<Rightarrow>
                  (case andThen (getProp (data r) ''data'') (\<lambda>u. getProp u ''role'') of
                     Inl e \<Rightarrow> (Inl e, [lookup])
                   | Inr role \<Rightarrow>
                       if role \<noteq> JStr ''trainer'' then (Inr invalid_trainer, [lookup])
                       else
                         let create = booking_create_call sv token f in
                         (case backend create of
                            Fulfilled booking \<Rightarrow>
                              (Inr \<lparr> res_status = 201, res_json = data booking \<rparr>,
                               [lookup, create])
                          | Rejected reason \<Rightarrow>
                              (Inl (AxiosError reason), [lookup, create]))))))"

text \<open>
  The \<open>catch\<close> block: \<open>if (error.response) return
  res.status(error.response.status).json(error.response.data)\<close>, else BOOKING_FAILED.
\<close>

definition booking_catch :: "exn \<Rightarrow> response" where
  "booking_catch e =
     (case e of
        AxiosError (Some r) \<Rightarrow> \<lparr> res_status = status r, res_json = data r \<rparr>
      | _ \<Rightarrow> booking_failed)"

definition validatedBooking ::
  "(nat \<Rightarrow> string) \<Rightarrow> services \<Rightarrow> backend \<Rightarrow> request \<Rightarrow> response \<times> backend_call list" where
  "validatedBooking expForm sv backend req =
     (case validatedBooking_try expForm sv backend req of
        (Inr res, calls) \<Rightarrow> (res, calls)
      | (Inl e, calls) \<Rightarrow> (booking_catch e, calls))"

section \<open>Proxy error, not-found and internal-error responses\<close>

text \<open>The proxy's \<open>onError\<close>.\<close>

definition proxy_onError :: "string \<Rightarrow> response" where
  "proxy_onError now =
     \<lparr> res_status = 502,
       res_json =
         JObj [(''success'', JBool False),
               (''error'', JObj [(''code'', JStr ''SERVICE_UNAVAILABLE''),
                                 (''message'', JStr ''The requested service is temporarily unavailable''),
                                 (''timestamp'', JStr now)])] \<rparr>"

definition notFound :: "string \<Rightarrow> request \<Rightarrow> response" where
  "notFound now req =
     \<lparr> res_status = 404,
       res_json =
         JObj [(''success'', JBool False),
               (''error'', JObj [(''code'', JStr ''NOT_FOUND''),
                                 (''message'', JStr ''Endpoint not found''),
                                 (''path'', JStr (path req)),
                                 (''timestamp'', JStr now)])] \<rparr>"

definition errorHandler :: "string \<Rightarrow> request \<Rightarrow> response" where
  "errorHandler now req =
     \<lparr> res_status = 500,
       res_json =
         JObj [(''success'', JBool False),
               (''error'', JObj [(''code'', JStr ''INTERNAL_ERROR''),
                                 (''message'', JStr ''An unexpected error occurred''),
                                 (''correlationId'', JStr (correlationId req)),
                                 (''timestamp'', JStr now)])] \<rparr>"

section \<open>Rate limiter configuration\<close>

text \<open>
  The numbers \<open>parseInt\<close> can return: \<open>NaN\<close>, an integer held as a double, or an
  infinity.
\<close>

datatype number = NaN | Finite int | PlusInfinity | MinusInfinity

text \<open>
  The Number value for an integer. Up to \<open>2^53\<close> in magnitude it is the integer itself.
  Beyond, the double nearest to it is the runtime's business (and \<open>parseInt\<close> may
  approximate a decimal string of more than 20 significant digits): \<open>approx n\<close> stands
  for what the runtime returns.
\<close>

definition toNumber :: "(int \<Rightarrow> number) \<Rightarrow> int \<Rightarrow> number" where
  "toNumber approx n = (if \<bar>n\<bar> \<le> 2 ^ 53 then Finite n else approx n)"

text \<open>
  \<open>parseInt(string)\<close> without a radix, after ECMAScript: strip leading white space, read
  a sign, switch to radix 16 after \<open>0x\<close> or \<open>0X\<close>, take the longest prefix of digits;
  \<open>NaN\<close> when that prefix is empty. Strings are sequences of code units below 256, of
  which these are white space.
\<close>

definition is_white_space :: "char \<Rightarrow> bool" where
  "is_white_space c =
     (c \<in> {CHR 0x09, CHR 0x0A, CHR 0x0B, CHR 0x0C, CHR 0x0D, CHR 0x20, CHR 0xA0})"

definition digit_value :: "char \<Rightarrow> nat option" where
  "digit_value c =
     (let n = (of_char c :: nat) in
      if 48 \<le> n \<and> n \<le> 57 then Some (n - 48)
      else if 97 \<le> n \<and> n \<le> 122 then Some (n - 87)
      else if 65 \<le> n \<and> n \<le> 90 then Some (n - 55)
      else None)"

definition is_radix_digit :: "nat \<Rightarrow> char \<Rightarrow> bool" where
  "is_radix_digit R c = (case digit_value c of Some d \<Rightarrow> d < R | None \<Rightarrow> False)"

definition radix_value :: "nat \<Rightarrow> string \<Rightarrow> nat" where
  "radix_value R Z =
     foldl (\<lambda>a c. a * R + (case digit_value c of Some d \<Rightarrow> d | None \<Rightarrow> 0)) 0 Z"

definition parseInt :: "(int \<Rightarrow> number) \<Rightarrow> string \<Rightarrow> number" where
  "parseInt approx inputString =
     (let S = dropWhile is_white_space inputString;
          sign = (if take 1 S = ''-'' then - 1 else 1 :: int);
          S1 = (if take 1 S = ''+'' \<or> take 1 S = ''-'' then drop 1 S else S);
          hex = (take 2 S1 = ''0x'' \<or> take 2 S1 = ''0X'');
          R = (if hex then 16 else 10);
          S2 = (if hex then drop 2 S1 else S1);
          Z = takeWhile (is_radix_digit R) S2
      in if Z = [] then NaN else toNumber approx (sign * int (radix_value R Z)))"

text \<open>\<open>parseInt(process.env.X)\<close>: an unset variable is \<open>undefined\<close>, read as the string.\<close>

definition parseInt_env :: "(int \<Rightarrow> number) \<Rightarrow> string option \<Rightarrow> number" where
  "parseInt_env approx v = parseInt approx (case v of None \<Rightarrow> ''undefined'' | Some s \<Rightarrow> s)"

text \<open>\<open>n || d\<close> on numbers: \<open>NaN\<close> and \<open>0\<close> (of either sign) are falsy.\<close>

definition number_or :: "number \<Rightarrow> int \<Rightarrow> number" where
  "number_or n d =
     (case n of
        NaN \<Rightarrow> Finite d
      | Finite k \<Rightarrow> if k = 0 then Finite d else Finite k
      | PlusInfinity \<Rightarrow> PlusInfinity
      | MinusInfinity \<Rightarrow> MinusInfinity)"

definition limiter_windowMs :: "(int \<Rightarrow> number) \<Rightarrow> env \<Rightarrow> number" where
  "limiter_windowMs approx e =
     number_or (parseInt_env approx (e ''RATE_LIMIT_WINDOW_MS'')) 60000"

definition limiter_max :: "(int \<Rightarrow> number) \<Rightarrow> env \<Rightarrow> number" where
  "limiter_max approx e =
     number_or (parseInt_env approx (e ''RATE_LIMIT_MAX_REQUESTS'')) 1000"

definition limiter_message :: jsval where
  "limiter_message =
     JObj [(''success'', JBool False),
           (''error'', JObj [(''code'', JStr ''RATE_LIMIT_EXCEEDED''),
                             (''message'', JStr ''Too many requests, please try again later'')])]"

definition limiter_skip :: "env \<Rightarrow> bool" where
  "limiter_skip e = (e ''NODE_ENV'' = Some ''development'')"

section \<open>Vocabulary of the properties\<close>

text \<open>\<open>k in v\<close>: the object has the property.\<close>

fun hasProp :: "jsval \<Rightarrow> string \<Rightarrow> bool" where
  "hasProp (JObj kvs) k = (k \<in> set (map fst kvs))"
| "hasProp v k = False"

fun isStr :: "jsval \<Rightarrow> bool" where
  "isStr (JStr s) = True"
| "isStr v = False"

text \<open>The failure form of an envelope: \<open>{success: false, error: {code, message, ...}}\<close>.\<close>

definition failure_envelope :: "jsval \<Rightarrow> bool" where
  "failure_envelope v =
     (propOf v ''success'' = JBool False \<and> hasProp v ''error'' \<and> \<not> hasProp v ''data''
      \<and> isStr (propOf (propOf v ''error'') ''code'')
      \<and> isStr (propOf (propOf v ''error'') ''message''))"

text \<open>The success form: \<open>{success: true, data: ..., ...}\<close>.\<close>

definition success_shape :: "jsval \<Rightarrow> bool" where
  "success_shape v =
     (propOf v ''success'' = JBool True \<and> hasProp v ''data'' \<and> \<not> hasProp v ''error'')"

text \<open>Where an envelope carries its timestamp: at the top, inside \<open>error\<close>, or nowhere.\<close>

datatype stamp_place = AtTop | InError | NoStamp

definition stamp_at :: "jsval \<Rightarrow> stamp_place \<Rightarrow> bool" where
  "stamp_at v p =
     (case p of
        AtTop \<Rightarrow> hasProp v ''timestamp'' \<and> \<not> hasProp (propOf v ''error'') ''timestamp''
      | InError \<Rightarrow> \<not> hasProp v ''timestamp'' \<and> hasProp (propOf v ''error'') ''timestamp''
      | NoStamp \<Rightarrow> \<not> hasProp v ''timestamp'' \<and> \<not> hasProp (propOf v ''error'') ''timestamp'')"

text \<open>A settled slot whose body, when fulfilled, can be read (is not \<open>undefined\<close> or \<open>null\<close>).\<close>

definition readable :: "settled \<Rightarrow> bool" where
  "readable slot = (case slot of Fulfilled r \<Rightarrow> \<not> nullish (data r) | Rejected reason \<Rightarrow> True)"

text \<open>The value the client and trainer dashboards extract from a slot, or its fallback.\<close>

definition extracted_data :: "settled \<Rightarrow> jsval \<Rightarrow> jsval" where
  "extracted_data slot fallback =
     (case slot of Fulfilled r \<Rightarrow> propOf (data r) ''data'' | Rejected reason \<Rightarrow> fallback)"

text \<open>The count the admin dashboard extracts from a slot, or 0.\<close>

definition extracted_count :: "settled \<Rightarrow> jsval" where
  "extracted_count slot =
     (case slot of
        Fulfilled r \<Rightarrow> orElse (propOf (propOf (data r) ''pagination'') ''total_count'') (JNum 0)
      | Rejected reason \<Rightarrow> JNum 0)"

text \<open>
  A stored date normalised to a date-only string:
  \<open>new Date(v).toISOString().split('T')[0]\<close>, when it does not throw.
\<close>

definition dateOnly :: "(jsval \<Rightarrow> string option) \<Rightarrow> jsval \<Rightarrow> string option" where
  "dateOnly toISO v = map_option split_T_0 (toISO v)"

text \<open>
  What the trainer dashboard reads of its slots. The length of the programs list needs a
  body with a \<open>data\<close> that is neither \<open>undefined\<close> nor \<open>null\<close>.
\<close>

fun lengthOf :: "jsval \<Rightarrow> jsval" where
  "lengthOf (JArr xs) = JNum (int (length xs))"
| "lengthOf (JStr s) = JNum (int (length s))"
| "lengthOf v = propOf v ''length''"

definition readable_list :: "settled \<Rightarrow> bool" where
  "readable_list slot =
     (case slot of
        Fulfilled r \<Rightarrow> \<not> nullish (data r) \<and> \<not> nullish (propOf (data r) ''data'')
      | Rejected reason \<Rightarrow> True)"

definition extracted_length :: "settled \<Rightarrow> jsval" where
  "extracted_length slot =
     (case slot of
        Fulfilled r \<Rightarrow> lengthOf (propOf (data r) ''data'')
      | Rejected reason \<Rightarrow> JNum 0)"

text \<open>
  A booking record the filter can test: it is not \<open>undefined\<close> or \<open>null\<close>, and its
  stored date is today's string itself or one the runtime's \<open>Date\<close> can read. The
  filter keeps the record when its date is today's string or normalises to it.
\<close>

definition readable_record :: "(jsval \<Rightarrow> string option) \<Rightarrow> string \<Rightarrow> jsval \<Rightarrow> bool" where
  "readable_record toISO today b =
     (\<not> nullish b
      \<and> (propOf b ''booking_date'' = JStr today \<or> toISO (propOf b ''booking_date'') \<noteq> None))"

definition dated_today :: "(jsval \<Rightarrow> string option) \<Rightarrow> string \<Rightarrow> jsval \<Rightarrow> bool" where
  "dated_today toISO today b =
     (propOf b ''booking_date'' = JStr today
      \<or> dateOnly toISO (propOf b ''booking_date'') = Some today)"

definition readable_bookings :: "(jsval \<Rightarrow> string option) \<Rightarrow> string \<Rightarrow> settled \<Rightarrow> bool" where
  "readable_bookings toISO today slot =
     (case slot of
        Fulfilled r \<Rightarrow>
          (case propOf (data r) ''data'' of
             JArr bs \<Rightarrow> list_all (readable_record toISO today) bs
           | _ \<Rightarrow> False)
      | Rejected reason \<Rightarrow> True)"

definition extracted_schedule :: "(jsval \<Rightarrow> string option) \<Rightarrow> string \<Rightarrow> settled \<Rightarrow> jsval list" where
  "extracted_schedule toISO today slot =
     (case slot of
        Fulfilled r \<Rightarrow>
          (case propOf (data r) ''data'' of
             JArr bs \<Rightarrow> filter (dated_today toISO today) bs
           | _ \<Rightarrow> [])
      | Rejected reason \<Rightarrow> [])"

text \<open>A non-empty string of decimal digits, and the number it writes.\<close>

definition decimal :: "string \<Rightarrow> bool" where
  "decimal s = (s \<noteq> [] \<and> list_all (is_radix_digit 10) s)"

definition decimal_value :: "string \<Rightarrow> int" where
  "decimal_value s = int (radix_value 10 s)"

text \<open>Likewise in hexadecimal, and the two prefixes that announce it.\<close>

definition hexadecimal :: "string \<Rightarrow> bool" where
  "hexadecimal s = (s \<noteq> [] \<and> list_all (is_radix_digit 16) s)"

definition hexadecimal_value :: "string \<Rightarrow> int" where
  "hexadecimal_value s = int (radix_value 16 s)"

definition hex_prefix :: "string \<Rightarrow> bool" where
  "hex_prefix p = (p = ''0x'' \<or> p = ''0X'')"

text \<open>A numeric override: a decimal integer, with or without a sign.\<close>

definition numeric :: "string \<Rightarrow> bool" where
  "numeric s =
     (case s of
        [] \<Rightarrow> False
      | c # cs \<Rightarrow> if c = CHR ''+'' \<or> c = CHR ''-'' then decimal cs else decimal s)"

text \<open>An optional sign and the factor it stands for.\<close>

definition is_sign :: "string \<Rightarrow> bool" where
  "is_sign sg = (sg = [] \<or> sg = ''+'' \<or> sg = ''-'')"

definition sign_of :: "string \<Rightarrow> int" where
  "sign_of sg = (if sg = ''-'' then - 1 else 1)"

text \<open>The rest of a string at which the digits of radix \<open>R\<close> stop.\<close>

definition stops :: "nat \<Rightarrow> string \<Rightarrow> bool" where
  "stops R rest = (case rest of [] \<Rightarrow> True | c # cs \<Rightarrow> \<not> is_radix_digit R c)"

text \<open>
  The strings \<open>parseInt\<close> reads a number from, taken apart: white space \<open>w\<close>, a sign
  \<open>sg\<close>, then either decimal digits \<open>Z\<close> (not opening with a hexadecimal prefix) or a
  hexadecimal prefix \<open>p\<close> and hexadecimal digits \<open>H\<close>, then anything at which the
  digits stop.
\<close>

definition leading_decimal :: "string \<Rightarrow> string \<Rightarrow> string \<Rightarrow> string \<Rightarrow> bool" where
  "leading_decimal w sg Z rest =
     (list_all is_white_space w \<and> is_sign sg \<and> decimal Z \<and> stops 10 rest
      \<and> \<not> hex_prefix (take 2 (Z @ rest)))"

definition leading_hexadecimal :: "string \<Rightarrow> string \<Rightarrow> string \<Rightarrow> string \<Rightarrow> string \<Rightarrow> bool" where
  "leading_hexadecimal w sg p H rest =
     (list_all is_white_space w \<and> is_sign sg \<and> hex_prefix p \<and> hexadecimal H \<and> stops 16 rest)"

text \<open>
  The strings it reads no number from: a hexadecimal prefix with no digit after it, and
  a string with no digit at its start once white space and a sign are skipped.
\<close>

definition bare_hex_prefix :: "string \<Rightarrow> string \<Rightarrow> string \<Rightarrow> string \<Rightarrow> bool" where
  "bare_hex_prefix w sg p rest =
     (list_all is_white_space w \<and> is_sign sg \<and> hex_prefix p \<and> stops 16 rest)"

definition no_leading_digit :: "string \<Rightarrow> bool" where
  "no_leading_digit s =
     (let S = dropWhile is_white_space s;
          S1 = (if take 1 S = ''+'' \<or> take 1 S = ''-'' then drop 1 S else S)
      in case S1 of [] \<Rightarrow> True | c # cs \<Rightarrow> \<not> is_radix_digit 10 c)"

section \<open>Example inputs\<close>

definition example_services :: services where
  "example_services = services_of (\<lambda>k. None)"

definition example_now :: string where
  "example_now = ''2024-03-07T10:15:30.000Z''"

text \<open>
  The runtime's renderings of numbers out of the exact range. No example below reaches
  them.
\<close>

definition example_expForm :: "nat \<Rightarrow> string" where
  "example_expForm m = ''1e+21''"

definition example_approx :: "int \<Rightarrow> number" where
  "example_approx n = (if n < 0 then MinusInfinity else PlusInfinity)"

text \<open>The environment with one variable set.\<close>

definition example_env :: "string \<Rightarrow> string \<Rightarrow> env" where
  "example_env name v = (\<lambda>k. if k = name then Some v else None)"

definition example_identity :: "string \<Rightarrow> string \<Rightarrow> jsval" where
  "example_identity uid role =
     JObj [(''id'', JStr uid), (''role'', JStr role),
           (''iss'', JStr ''fitsync-user-service''), (''aud'', JStr ''fitsync-api'')]"

definition example_request :: "jsval \<Rightarrow> string \<Rightarrow> jsval \<Rightarrow> request" where
  "example_request u pid b =
     \<lparr> authorization = Some ''Bearer header.payload.signature'', user = u, params_id = pid,
       body = b, path = ''/api/unknown'',
       correlationId = ''7f0c1d2e-0000-4000-8000-000000000000'' \<rparr>"

text \<open>A request without credentials, as the identity annotator hands it on.\<close>

definition anonymous_request :: request where
  "anonymous_request =
     \<lparr> authorization = None, user = JUndefined, params_id = ''client-123'',
       body = JObj [], path = ''/api/dashboard/admin'',
       correlationId = ''7f0c1d2e-0000-4000-8000-000000000001'' \<rparr>"

definition json_ok :: "jsval \<Rightarrow> settled" where
  "json_ok v = Fulfilled \<lparr> status = 200, data = v \<rparr>"

text \<open>A backend given by a table from URLs to outcomes; any other call fails to connect.\<close>

definition example_backend :: "(string \<times> settled) list \<Rightarrow> backend" where
  "example_backend table c =
     (case map_of table (call_url c) of Some outcome \<Rightarrow> outcome | None \<Rightarrow> Rejected None)"

text \<open>
  A \<open>Date\<close> that reads the date-only form \<open>YYYY-MM-DD\<close> (as midnight UTC) and nothing
  else.
\<close>

definition example_toISO :: "jsval \<Rightarrow> string option" where
  "example_toISO v =
     (case v of
        JStr s \<Rightarrow>
          if length s = 10 \<and> s ! 4 = CHR ''-'' \<and> s ! 7 = CHR ''-''
             \<and> list_all (is_radix_digit 10) (take 4 s @ take 2 (drop 5 s) @ drop 8 s)
          then Some (s @ ''T00:00:00.000Z'')
          else None
      | _ \<Rightarrow> None)"

definition example_booking :: "string \<Rightarrow> string \<Rightarrow> string \<Rightarrow> jsval" where
  "example_booking bid day name =
     JObj [(''id'', JStr bid), (''booking_date'', JStr day), (''client_name'', JStr name)]"

text \<open>A booking request from a client, naming a trainer.\<close>

definition example_booking_request :: request where
  "example_booking_request =
     \<lparr> authorization = Some ''Bearer header.payload.signature'',
       user = example_identity ''client-123'' ''client'',
       params_id = [],
       body = JObj [(''trainer_id'', JStr ''trainer-1''), (''client_id'', JStr ''client-123''),
                    (''booking_date'', JStr ''2024-03-08''), (''start_time'', JStr ''09:00''),
                    (''end_time'', JStr ''10:00''), (''type'', JStr ''personal''),
                    (''gym_id'', JNum 7)],
       path = ''/api/bookings/validated'',
       correlationId = ''7f0c1d2e-0000-4000-8000-000000000002'' \<rparr>"

text \<open>The user service answering the trainer lookup with a trainer.\<close>

definition trainer_found :: "string \<times> settled" where
  "trainer_found =
     (''http://localhost:3001/api/users/trainer-1'',
      json_ok (JObj [(''success'', JBool True),
                     (''data'', JObj [(''id'', JStr ''trainer-1''), (''role'', JStr ''trainer'')])]))"

section \<open>Basic facts\<close>

lemma nullish_cases:
  "nullish JUndefined" "nullish JNull" "\<not> nullish (JBool b)" "\<not> nullish (JNum n)"
  "\<not> nullish (JStr s)" "\<not> nullish (JArr xs)" "\<not> nullish (JObj kvs)"
  by (simp_all add: nullish_def)

lemma getProp_truthy: "truthy v \<Longrightarrow> getProp v k = Inr (propOf v k)"
  by (cases v) (simp_all add: getProp_def nullish_def)

lemma propOf_JStr_truthy: "propOf v k = JStr s \<Longrightarrow> truthy v"
  by (cases v) simp_all

lemma getPropOpt_total: "getPropOpt v k = Inr (propOf v k)"
  by (cases v) (simp_all add: getPropOpt_def getProp_def nullish_def)

text \<open>The three access checks never throw: a truthy value can be read.\<close>

lemma client_denied_eq:
  "client_denied req = Inr (truthy (user req) \<and> propOf (user req) ''role'' = JStr ''client''
      \<and> propOf (user req) ''id'' \<noteq> JStr (params_id req))"
  by (simp add: client_denied_def andThen_def getProp_truthy)

lemma trainer_denied_eq:
  "trainer_denied req = Inr (truthy (user req) \<and> propOf (user req) ''role'' = JStr ''trainer''
      \<and> propOf (user req) ''id'' \<noteq> JStr (params_id req))"
  by (simp add: trainer_denied_def andThen_def getProp_truthy)

lemma admin_denied_eq:
  "admin_denied req = Inr (truthy (user req) \<and> propOf (user req) ''role'' \<noteq> JStr ''admin'')"
  by (simp add: admin_denied_def andThen_def getProp_truthy)

lemma example_services_eq:
  "example_services =
     \<lparr> user_service = ''http://localhost:3001'', training_service = ''http://localhost:3002'',
       schedule_service = ''http://localhost:8003'', progress_service = ''http://localhost:8004'',
       notification_service = ''http://localhost:3005'' \<rparr>"
  by (simp add: example_services_def services_of_def env_or_def)

section \<open>The identity annotator never blocks\<close>

text \<open>
  C3. When the credential header is absent, is not of the form \<open>Bearer <token>\<close>, or
  carries a token that \<open>jwt.verify\<close> rejects for whatever reason, \<open>verifyToken\<close> calls
  \<open>next()\<close> with the request as it came: no identity is attached and no response is
  written.
\<close>

theorem verifyToken_soft_failure:
  assumes "authorization req = None
     \<or> (\<exists>h. authorization req = Some h \<and> \<not> startsWith h ''Bearer '')
     \<or> (\<exists>h e. authorization req = Some h
           \<and> jwt_verify (substring h 7) secret ''fitsync-user-service'' ''fitsync-api'' = Inl e)"
  shows "verifyToken jwt_verify secret req = Next req"
  using assms by (auto simp: verifyToken_def Let_def split: option.splits sum.splits)

theorem verifyToken_soft_failure_witness:
  "verifyToken (\<lambda>token key iss aud. Inl TokenExpired) ''test-jwt-secret-key''
      (example_request JUndefined ''client-123'' JUndefined)
     = Next (example_request JUndefined ''client-123'' JUndefined)
   \<and> user (example_request JUndefined ''client-123'' JUndefined) = JUndefined
   \<and> verifyToken (\<lambda>token key iss aud. Inr (example_identity ''admin-1'' ''admin''))
        ''test-jwt-secret-key'' anonymous_request
     = Next anonymous_request"
  using verifyToken_soft_failure
          [where req = "example_request JUndefined ''client-123'' JUndefined"
             and jwt_verify = "\<lambda>token key iss aud. Inl TokenExpired"
             and secret = "''test-jwt-secret-key''"]
        verifyToken_soft_failure
          [where req = anonymous_request
             and jwt_verify = "\<lambda>token key iss aud. Inr (example_identity ''admin-1'' ''admin'')"
             and secret = "''test-jwt-secret-key''"]
  by (simp add: example_request_def anonymous_request_def)

section \<open>Access to the client dashboard\<close>

lemma clientDashboard_denied:
  "truthy (user req) \<Longrightarrow> propOf (user req) ''role'' = JStr ''client'' \<Longrightarrow>
   propOf (user req) ''id'' \<noteq> JStr (params_id req) \<Longrightarrow>
   clientDashboard sv backend now req = (forbidden ''Cannot access other client dashboards'', [])"
  by (simp add: clientDashboard_def client_denied_eq)

lemma clientDashboard_proceeds:
  assumes "client_denied req = Inr False"
  shows "snd (clientDashboard sv backend now req) = client_calls sv req \<and>
         res_status (fst (clientDashboard sv backend now req)) \<in> {200, 500}"
  by (simp add: clientDashboard_def assms dashboard_error_def success_envelope_def
      split: sum.splits)

text \<open>
  C6. On \<open>GET /api/dashboard/client/:id\<close>, an identity with role \<open>client\<close> whose
  subject id is not the \<open>:id\<close> parameter gets the forbidden envelope (status 403, code
  FORBIDDEN) and no backend call is issued; with its own id the four calls are issued and
  the answer is not a denial. An identity with role \<open>trainer\<close> or \<open>admin\<close> is never
  denied, whatever the id.
\<close>

theorem clientDashboard_access:
  "(propOf (user req) ''role'' = JStr ''client'' \<and> propOf (user req) ''id'' \<noteq> JStr (params_id req)
      \<longrightarrow> clientDashboard sv backend now req
            = (\<lparr> res_status = 403,
                 res_json = JObj [(''success'', JBool False),
                                  (''error'', JObj [(''code'', JStr ''FORBIDDEN''),
                                     (''message'', JStr ''Cannot access other client dashboards'')])] \<rparr>,
               []))
   \<and> (propOf (user req) ''role'' = JStr ''client'' \<and> propOf (user req) ''id'' = JStr (params_id req)
      \<longrightarrow> snd (clientDashboard sv backend now req) = client_calls sv req
          \<and> res_status (fst (clientDashboard sv backend now req)) \<noteq> 403)
   \<and> (propOf (user req) ''role'' = JStr ''trainer'' \<or> propOf (user req) ''role'' = JStr ''admin''
      \<longrightarrow> snd (clientDashboard sv backend now req) = client_calls sv req
          \<and> res_status (fst (clientDashboard sv backend now req)) \<noteq> 403)"
proof (intro conjI impI)
  assume a: "propOf (user req) ''role'' = JStr ''client''
               \<and> propOf (user req) ''id'' \<noteq> JStr (params_id req)"
  then have "truthy (user req)" by (blast intro: propOf_JStr_truthy)
  with a show "clientDashboard sv backend now req
            = (\<lparr> res_status = 403,
                 res_json = JObj [(''success'', JBool False),
                                  (''error'', JObj [(''code'', JStr ''FORBIDDEN''),
                                     (''message'', JStr ''Cannot access other client dashboards'')])] \<rparr>,
               [])"
    using clientDashboard_denied[of req sv backend now]
    by (simp add: forbidden_def error_envelope_def)
next
  assume "propOf (user req) ''role'' = JStr ''client''
            \<and> propOf (user req) ''id'' = JStr (params_id req)"
  then have n: "client_denied req = Inr False" by (simp add: client_denied_eq)
  from clientDashboard_proceeds[OF n, of sv backend now]
  show "snd (clientDashboard sv backend now req) = client_calls sv req" by simp
  from clientDashboard_proceeds[OF n, of sv backend now]
  show "res_status (fst (clientDashboard sv backend now req)) \<noteq> 403" by auto
next
  assume "propOf (user req) ''role'' = JStr ''trainer'' \<or> propOf (user req) ''role'' = JStr ''admin''"
  then have n: "client_denied req = Inr False" by (auto simp: client_denied_eq)
  from clientDashboard_proceeds[OF n, of sv backend now]
  show "snd (clientDashboard sv backend now req) = client_calls sv req" by simp
  from clientDashboard_proceeds[OF n, of sv backend now]
  show "res_status (fst (clientDashboard sv backend now req)) \<noteq> 403" by auto
qed

theorem clientDashboard_access_witness:
  "clientDashboard example_services (example_backend []) example_now
      (example_request (example_identity ''client-123'' ''client'') ''client-456'' JUndefined)
     = (\<lparr> res_status = 403,
          res_json = JObj [(''success'', JBool False),
                           (''error'', JObj [(''code'', JStr ''FORBIDDEN''),
                              (''message'', JStr ''Cannot access other client dashboards'')])] \<rparr>,
        [])
   \<and> length (snd (clientDashboard example_services (example_backend []) example_now
        (example_request (example_identity ''client-123'' ''client'') ''client-123'' JUndefined))) = 4
   \<and> res_status (fst (clientDashboard example_services (example_backend []) example_now
        (example_request (example_identity ''client-123'' ''client'') ''client-123'' JUndefined))) \<noteq> 403
   \<and> length (snd (clientDashboard example_services (example_backend []) example_now
        (example_request (example_identity ''trainer-1'' ''trainer'') ''client-123'' JUndefined))) = 4
   \<and> res_status (fst (clientDashboard example_services (example_backend []) example_now
        (example_request (example_identity ''trainer-1'' ''trainer'') ''client-123'' JUndefined))) \<noteq> 403"
  using clientDashboard_access
          [where sv = example_services and backend = "example_backend []" and now = example_now
             and req = "example_request (example_identity ''client-123'' ''client'') ''client-456'' JUndefined"]
        clientDashboard_access
          [where sv = example_services and backend = "example_backend []" and now = example_now
             and req = "example_request (example_identity ''client-123'' ''client'') ''client-123'' JUndefined"]
        clientDashboard_access
          [where sv = example_services and backend = "example_backend []" and now = example_now
             and req = "example_request (example_identity ''trainer-1'' ''trainer'') ''client-123'' JUndefined"]
  by (simp add: example_request_def example_identity_def client_calls_def)

section \<open>Access to the admin overview\<close>

lemma adminDashboard_denied:
  "truthy (user req) \<Longrightarrow> propOf (user req) ''role'' \<noteq> JStr ''admin'' \<Longrightarrow>
   adminDashboard sv backend now req = (forbidden ''Admin access required'', [])"
  by (simp add: adminDashboard_def admin_denied_eq)

lemma adminDashboard_proceeds:
  assumes "admin_denied req = Inr False"
  shows "snd (adminDashboard sv backend now req) = admin_calls sv req \<and>
         res_status (fst (adminDashboard sv backend now req)) \<in> {200, 500}"
  by (simp add: adminDashboard_def assms dashboard_error_def success_envelope_def
      split: sum.splits)

text \<open>
  C1, as stated, fails: a request that carries no identity at all is not denied. A
  request without a credential header passes the annotator unchanged and, with every
  backend unreachable, is answered with status 200, \<open>success: true\<close>, and the four
  backend calls are issued.
\<close>

theorem admin_without_identity_counterexample:
  "user anonymous_request = JUndefined
   \<and> withVerifyToken (\<lambda>token key iss aud. Inl Malformed) ''test-jwt-secret-key''
        (adminDashboard example_services (example_backend []) example_now) anonymous_request
       = adminDashboard example_services (example_backend []) example_now anonymous_request
   \<and> adminDashboard example_services (example_backend []) example_now anonymous_request
       = (\<lparr> res_status = 200,
            res_json = JObj [(''success'', JBool True),
                             (''data'', JObj [(''total_users'', JNum 0), (''total_trainers'', JNum 0),
                                              (''total_clients'', JNum 0), (''total_programs'', JNum 0)]),
                             (''timestamp'', JStr ''2024-03-07T10:15:30.000Z'')] \<rparr>,
          [axios_get ''http://localhost:3001/api/users?limit=1'' None,
           axios_get ''http://localhost:3001/api/users?role=trainer&limit=1'' None,
           axios_get ''http://localhost:3001/api/users?role=client&limit=1'' None,
           axios_get ''http://localhost:3002/api/programs?limit=1'' None])"
  by (simp add: withVerifyToken_def verifyToken_def
      adminDashboard_def admin_denied_def anonymous_request_def example_services_eq
      example_backend_def admin_payload_def slot_total_count_def andThen_def
      success_envelope_def example_now_def admin_calls_def admin_users_call_def
      admin_trainers_call_def admin_clients_call_def admin_programs_call_def)

text \<open>
  C1, amended. On \<open>GET /api/dashboard/admin\<close> a request is denied (FORBIDDEN envelope at
  status 403, no backend call) exactly when it carries an identity whose role is not
  \<open>admin\<close>. A request whose identity has role \<open>admin\<close>, and a request with no identity,
  are let through: the four backend calls are issued and the answer is not a denial.
\<close>

theorem adminDashboard_access:
  "(truthy (user req) \<and> propOf (user req) ''role'' \<noteq> JStr ''admin''
      \<longrightarrow> adminDashboard sv backend now req
            = (\<lparr> res_status = 403,
                 res_json = JObj [(''success'', JBool False),
                                  (''error'', JObj [(''code'', JStr ''FORBIDDEN''),
                                     (''message'', JStr ''Admin access required'')])] \<rparr>,
               []))
   \<and> (propOf (user req) ''role'' = JStr ''admin'' \<or> \<not> truthy (user req)
      \<longrightarrow> snd (adminDashboard sv backend now req) = admin_calls sv req
          \<and> res_status (fst (adminDashboard sv backend now req)) \<noteq> 403)"
proof (intro conjI impI)
  assume "truthy (user req) \<and> propOf (user req) ''role'' \<noteq> JStr ''admin''"
  then show "adminDashboard sv backend now req
            = (\<lparr> res_status = 403,
                 res_json = JObj [(''success'', JBool False),
                                  (''error'', JObj [(''code'', JStr ''FORBIDDEN''),
                                     (''message'', JStr ''Admin access required'')])] \<rparr>,
               [])"
    using adminDashboard_denied[of req sv backend now]
    by (simp add: forbidden_def error_envelope_def)
next
  assume "propOf (user req) ''role'' = JStr ''admin'' \<or> \<not> truthy (user req)"
  then have n: "admin_denied req = Inr False" by (auto simp: admin_denied_eq)
  from adminDashboard_proceeds[OF n, of sv backend now]
  show "snd (adminDashboard sv backend now req) = admin_calls sv req" by simp
  from adminDashboard_proceeds[OF n, of sv backend now]
  show "res_status (fst (adminDashboard sv backend now req)) \<noteq> 403" by auto
qed

theorem adminDashboard_access_witness:
  "adminDashboard example_services (example_backend []) example_now
      (example_request (example_identity ''trainer-1'' ''trainer'') [] JUndefined)
     = (\<lparr> res_status = 403,
          res_json = JObj [(''success'', JBool False),
                           (''error'', JObj [(''code'', JStr ''FORBIDDEN''),
                              (''message'', JStr ''Admin access required'')])] \<rparr>,
        [])
   \<and> length (snd (adminDashboard example_services (example_backend []) example_now
        (example_request (example_identity ''admin-1'' ''admin'') [] JUndefined))) = 4
   \<and> res_status (fst (adminDashboard example_services (example_backend []) example_now
        (example_request (example_identity ''admin-1'' ''admin'') [] JUndefined))) \<noteq> 403
   \<and> length (snd (adminDashboard example_services (example_backend []) example_now
        anonymous_request)) = 4
   \<and> res_status (fst (adminDashboard example_services (example_backend []) example_now
        anonymous_request)) \<noteq> 403"
  using adminDashboard_access
          [where sv = example_services and backend = "example_backend []" and now = example_now
             and req = "example_request (example_identity ''trainer-1'' ''trainer'') [] JUndefined"]
        adminDashboard_access
          [where sv = example_services and backend = "example_backend []" and now = example_now
             and req = "example_request (example_identity ''admin-1'' ''admin'') [] JUndefined"]
        adminDashboard_access
          [where sv = example_services and backend = "example_backend []" and now = example_now
             and req = anonymous_request]
  by (simp add: example_request_def example_identity_def anonymous_request_def admin_calls_def)

section \<open>Facts about the schedule filter\<close>

lemma filter_js_total:
  "\<forall>x\<in>set xs. p x = Inr (q x) \<Longrightarrow> filter_js p xs = Inr (filter q xs)"
  by (induction xs) simp_all

lemma filter_js_throws:
  "x \<in> set xs \<Longrightarrow> p x = Inl e \<Longrightarrow> \<exists>e'. filter_js p xs = Inl e'"
proof (induction xs)
  case Nil
  then show ?case by simp
next
  case (Cons y ys)
  show ?case
  proof (cases "p y")
    case (Inl e0)
    then show ?thesis by simp
  next
    case (Inr keep)
    have "x \<in> set ys"
    proof (rule ccontr)
      assume "x \<notin> set ys"
      with Cons.prems(1) have "x = y" by simp
      with Cons.prems(2) Inr show False by simp
    qed
    with Cons.IH Cons.prems(2) obtain e' where "filter_js p ys = Inl e'" by blast
    with Inr show ?thesis by simp
  qed
qed

lemma isToday_readable:
  assumes "readable_record toISO today b"
  shows "isToday toISO today b = Inr (dated_today toISO today b)"
  using assms
  by (auto simp: readable_record_def dated_today_def isToday_def andThen_def getProp_def
      dateOnly_def)

lemma isToday_throws:
  assumes "propOf b ''booking_date'' = JStr s" and "toISO (JStr s) = None"
    and "toISO (JStr today) \<noteq> None"
  shows "isToday toISO today b = Inl RangeError"
proof -
  from assms(1) have "\<not> nullish b" by (cases b) (simp_all add: nullish_def)
  moreover from assms(2,3) have "s \<noteq> today" by auto
  ultimately show ?thesis using assms(1,2)
    by (simp add: isToday_def andThen_def getProp_def)
qed

lemma todaySchedule_readable:
  assumes "readable_bookings toISO today slot"
  shows "todaySchedule toISO today slot = Inr (extracted_schedule toISO today slot)"
proof (cases slot)
  case (Rejected reason)
  then show ?thesis by (simp add: todaySchedule_def extracted_schedule_def)
next
  case (Fulfilled r)
  with assms obtain bs where arr: "propOf (data r) ''data'' = JArr bs"
    and ok: "list_all (readable_record toISO today) bs"
    by (auto simp: readable_bookings_def split: jsval.splits)
  from arr have rd: "getProp (data r) ''data'' = Inr (JArr bs)"
    by (cases "data r") (simp_all add: getProp_def nullish_def)
  from ok have "\<forall>b\<in>set bs. isToday toISO today b = Inr (dated_today toISO today b)"
    by (simp add: list_all_iff isToday_readable)
  then have "filter_js (isToday toISO today) bs = Inr (filter (dated_today toISO today) bs)"
    by (rule filter_js_total)
  with Fulfilled arr rd show ?thesis
    by (simp add: todaySchedule_def extracted_schedule_def andThen_def)
qed

lemma getLength_total: "\<not> nullish v \<Longrightarrow> getLength v = Inr (lengthOf v)"
  by (cases v) (simp_all add: getProp_def nullish_def)

lemma readable_list_readable: "readable_list slot \<Longrightarrow> readable slot"
  by (cases slot) (simp_all add: readable_list_def readable_def)

lemma slot_data_length_readable:
  "readable_list slot \<Longrightarrow> slot_data_length slot = Inr (extracted_length slot)"
  by (cases slot)
     (simp_all add: readable_list_def slot_data_length_def extracted_length_def getProp_def
        andThen_def getLength_total)

lemma example_dates:
  "example_toISO (JStr ''2024-03-06'') = Some ''2024-03-06T00:00:00.000Z''"
  "example_toISO (JStr ''2024-03-07'') = Some ''2024-03-07T00:00:00.000Z''"
  "example_toISO (JStr ''2024-03-08'') = Some ''2024-03-08T00:00:00.000Z''"
  "example_toISO (JStr ''next tuesday'') = None"
  by code_simp+

lemma example_normalised:
  "dateOnly example_toISO (JStr ''2024-03-06'') = Some ''2024-03-06''"
  "dateOnly example_toISO (JStr ''2024-03-07'') = Some ''2024-03-07''"
  "dateOnly example_toISO (JStr ''2024-03-08'') = Some ''2024-03-08''"
  by code_simp+

lemma example_today: "split_T_0 example_now = ''2024-03-07''"
  by code_simp

section \<open>Partial failure of the fan-out\<close>

lemma slot_data_readable: "readable slot \<Longrightarrow> slot_data slot fb = Inr (extracted_data slot fb)"
  by (cases slot) (simp_all add: readable_def slot_data_def extracted_data_def getProp_def)

lemma slot_total_count_readable:
  "readable slot \<Longrightarrow> slot_total_count slot = Inr (extracted_count slot)"
  by (cases slot)
     (simp_all add: readable_def slot_total_count_def extracted_count_def getProp_def
        getPropOpt_total andThen_def)

lemma client_payload_readable:
  "readable p1 \<Longrightarrow> readable p2 \<Longrightarrow> readable p3 \<Longrightarrow> readable p4 \<Longrightarrow>
   client_payload p1 p2 p3 p4 =
     Inr (JObj [(''profile'', extracted_data p1 JNull),
                (''active_programs'', extracted_data p2 (JArr [])),
                (''upcoming_bookings'', extracted_data p3 (JArr [])),
                (''progress_summary'', extracted_data p4 JNull)])"
  by (simp add: client_payload_def slot_data_readable andThen_def)

lemma admin_payload_readable:
  "readable p1 \<Longrightarrow> readable p2 \<Longrightarrow> readable p3 \<Longrightarrow> readable p4 \<Longrightarrow>
   admin_payload p1 p2 p3 p4 =
     Inr (JObj [(''total_users'', extracted_count p1),
                (''total_trainers'', extracted_count p2),
                (''total_clients'', extracted_count p3),
                (''total_programs'', extracted_count p4)])"
  by (simp add: admin_payload_def slot_total_count_readable andThen_def)

lemma example_client_calls:
  "client_calls example_services anonymous_request =
     [axios_get ''http://localhost:3001/api/users/client-123'' None,
      axios_get ''http://localhost:3002/api/programs?client_id=client-123&limit=5'' None,
      axios_get ''http://localhost:8003/api/bookings?client_id=client-123&status=scheduled&limit=5'' None,
      axios_get ''http://localhost:8004/api/analytics/client/client-123'' None]"
  by (simp add: client_calls_def client_profile_call_def client_programs_call_def
      client_bookings_call_def client_analytics_call_def example_services_eq
      anonymous_request_def)

lemma trainer_payload_readable:
  "readable p1 \<Longrightarrow> readable_list p2 \<Longrightarrow> readable_bookings toISO today p3 \<Longrightarrow>
   trainer_payload toISO today p1 p2 p3 =
     Inr (JObj [(''profile'', extracted_data p1 JNull),
                (''active_clients'', extracted_length p2),
                (''today_schedule'', JArr (extracted_schedule toISO today p3)),
                (''recent_programs'', extracted_data p2 (JArr []))])"
  by (simp add: trainer_payload_def todaySchedule_readable slot_data_readable
      slot_data_length_readable readable_list_readable andThen_def)

text \<open>
  C2, as stated, fails: the user service and the training service fulfil, the other two
  calls reject, and the client dashboard still answers DASHBOARD_ERROR at status 500,
  because the fulfilled profile response has the JSON body \<open>null\<close> and reading
  \<open>profile.value.data.data\<close> throws.
\<close>

theorem null_body_counterexample:
  "map (example_backend
          [(''http://localhost:3001/api/users/client-123'', json_ok JNull),
           (''http://localhost:3002/api/programs?client_id=client-123&limit=5'',
            json_ok (JObj [(''data'', JArr [])]))])
       (client_calls example_services anonymous_request)
     = [Fulfilled \<lparr> status = 200, data = JNull \<rparr>,
        Fulfilled \<lparr> status = 200, data = JObj [(''data'', JArr [])] \<rparr>,
        Rejected None, Rejected None]
   \<and> clientDashboard example_services
        (example_backend
          [(''http://localhost:3001/api/users/client-123'', json_ok JNull),
           (''http://localhost:3002/api/programs?client_id=client-123&limit=5'',
            json_ok (JObj [(''data'', JArr [])]))])
        example_now anonymous_request
     = (\<lparr> res_status = 500,
          res_json = JObj [(''success'', JBool False),
                           (''error'', JObj [(''code'', JStr ''DASHBOARD_ERROR''),
                                             (''message'', JStr ''Failed to load dashboard'')])] \<rparr>,
        client_calls example_services anonymous_request)"
  by (simp add: example_client_calls clientDashboard_def client_denied_def anonymous_request_def
      client_profile_call_def client_programs_call_def
      client_bookings_call_def client_analytics_call_def example_services_eq
      example_backend_def axios_get_def json_ok_def client_payload_def slot_data_def
      getProp_def nullish_def andThen_def dashboard_error_def error_envelope_def client_calls_def)

text \<open>
  C2, amended. On the client, the trainer and the admin dashboard, whenever the access
  check passes and every read of a fulfilled response succeeds, the response is
  \<open>success: true\<close> at status 200 and each field of its payload is the value extracted
  from its slot when the slot fulfilled, and the fallback when it rejected: \<open>null\<close> for
  the single objects, the empty list for the lists, 0 for the counts. The reads succeed
  when the body of every fulfilled response is neither \<open>null\<close> nor \<open>undefined\<close>; on the
  trainer dashboard, in addition, the fulfilled programs response has a \<open>data\<close> whose
  length can be read, and the fulfilled bookings response has an array of records with
  dates the runtime can read. The trainer dashboard's fourth call, the client list, has no
  field in the payload. This holds for any number of rejected slots, two of four among
  them.
\<close>

theorem partial_failure_fallbacks:
  "(client_denied req = Inr False
      \<and> readable (backend (client_profile_call sv req))
      \<and> readable (backend (client_programs_call sv req))
      \<and> readable (backend (client_bookings_call sv req))
      \<and> readable (backend (client_analytics_call sv req))
    \<longrightarrow> clientDashboard sv backend now req =
          (\<lparr> res_status = 200,
             res_json =
               JObj [(''success'', JBool True),
                     (''data'',
                      JObj [(''profile'', extracted_data (backend (client_profile_call sv req)) JNull),
                            (''active_programs'',
                             extracted_data (backend (client_programs_call sv req)) (JArr [])),
                            (''upcoming_bookings'',
                             extracted_data (backend (client_bookings_call sv req)) (JArr [])),
                            (''progress_summary'',
                             extracted_data (backend (client_analytics_call sv req)) JNull)]),
                     (''timestamp'', JStr now)] \<rparr>,
           client_calls sv req))
   \<and> (admin_denied req = Inr False
      \<and> readable (backend (admin_users_call sv req))
      \<and> readable (backend (admin_trainers_call sv req))
      \<and> readable (backend (admin_clients_call sv req))
      \<and> readable (backend (admin_programs_call sv req))
    \<longrightarrow> adminDashboard sv backend now req =
          (\<lparr> res_status = 200,
             res_json =
               JObj [(''success'', JBool True),
                     (''data'',
                      JObj [(''total_users'', extracted_count (backend (admin_users_call sv req))),
                            (''total_trainers'', extracted_count (backend (admin_trainers_call sv req))),
                            (''total_clients'', extracted_count (backend (admin_clients_call sv req))),
                            (''total_programs'', extracted_count (backend (admin_programs_call sv req)))]),
                     (''timestamp'', JStr now)] \<rparr>,
           admin_calls sv req))
   \<and> (trainer_denied req = Inr False
      \<and> readable (backend (trainer_profile_call sv req))
      \<and> readable_list (backend (trainer_programs_call sv req))
      \<and> readable_bookings toISO (split_T_0 now0) (backend (trainer_bookings_call sv req))
    \<longrightarrow> trainerDashboard sv backend toISO now0 now req =
          (\<lparr> res_status = 200,
             res_json =
               JObj [(''success'', JBool True),
                     (''data'',
                      JObj [(''profile'', extracted_data (backend (trainer_profile_call sv req)) JNull),
                            (''active_clients'',
                             extracted_length (backend (trainer_programs_call sv req))),
                            (''today_schedule'',
                             JArr (extracted_schedule toISO (split_T_0 now0)
                                     (backend (trainer_bookings_call sv req)))),
                            (''recent_programs'',
                             extracted_data (backend (trainer_programs_call sv req)) (JArr []))]),
                     (''timestamp'', JStr now)] \<rparr>,
           trainer_calls sv req))"
  by (simp add: clientDashboard_def adminDashboard_def trainerDashboard_def Let_def
        client_payload_readable admin_payload_readable trainer_payload_readable
        success_envelope_def)

theorem partial_failure_fallbacks_witness:
  "clientDashboard example_services
      (example_backend
         [(''http://localhost:3001/api/users/client-123'',
           json_ok (JObj [(''data'', JObj [(''id'', JStr ''client-123'')])])),
          (''http://localhost:3002/api/programs?client_id=client-123&limit=5'',
           json_ok (JObj [(''data'', JArr [JStr ''program-1''])]))])
      example_now anonymous_request
     = (\<lparr> res_status = 200,
          res_json =
            JObj [(''success'', JBool True),
                  (''data'', JObj [(''profile'', JObj [(''id'', JStr ''client-123'')]),
                                   (''active_programs'', JArr [JStr ''program-1'']),
                                   (''upcoming_bookings'', JArr []),
                                   (''progress_summary'', JNull)]),
                  (''timestamp'', JStr example_now)] \<rparr>,
        client_calls example_services anonymous_request)
   \<and> adminDashboard example_services
      (example_backend
         [(''http://localhost:3001/api/users?limit=1'',
           json_ok (JObj [(''data'', JArr []), (''pagination'', JObj [(''total_count'', JNum 150)])])),
          (''http://localhost:3002/api/programs?limit=1'',
           json_ok (JObj [(''data'', JArr [])]))])
      example_now anonymous_request
     = (\<lparr> res_status = 200,
          res_json =
            JObj [(''success'', JBool True),
                  (''data'', JObj [(''total_users'', JNum 150), (''total_trainers'', JNum 0),
                                   (''total_clients'', JNum 0), (''total_programs'', JNum 0)]),
                  (''timestamp'', JStr example_now)] \<rparr>,
        admin_calls example_services anonymous_request)
   \<and> trainerDashboard example_services
      (example_backend
         [(''http://localhost:3001/api/users/trainer-1'',
           json_ok (JObj [(''data'', JObj [(''id'', JStr ''trainer-1'')])])),
          (''http://localhost:8003/api/bookings?trainer_id=trainer-1&limit=20'',
           json_ok (JObj [(''data'',
              JArr [example_booking ''book-2'' ''2024-03-07'' ''Today Client''])]))])
      example_toISO example_now example_now
      (example_request (example_identity ''trainer-1'' ''trainer'') ''trainer-1'' JUndefined)
     = (\<lparr> res_status = 200,
          res_json =
            JObj [(''success'', JBool True),
                  (''data'', JObj [(''profile'', JObj [(''id'', JStr ''trainer-1'')]),
                                   (''active_clients'', JNum 0),
                                   (''today_schedule'',
                                    JArr [example_booking ''book-2'' ''2024-03-07'' ''Today Client'']),
                                   (''recent_programs'', JArr [])]),
                  (''timestamp'', JStr example_now)] \<rparr>,
        trainer_calls example_services
          (example_request (example_identity ''trainer-1'' ''trainer'') ''trainer-1'' JUndefined))"
  using partial_failure_fallbacks
          [where sv = example_services and now = example_now and req = anonymous_request
             and backend = "example_backend
               [(''http://localhost:3001/api/users/client-123'',
                 json_ok (JObj [(''data'', JObj [(''id'', JStr ''client-123'')])])),
                (''http://localhost:3002/api/programs?client_id=client-123&limit=5'',
                 json_ok (JObj [(''data'', JArr [JStr ''program-1''])]))]"]
        partial_failure_fallbacks
          [where sv = example_services and now = example_now and req = anonymous_request
             and backend = "example_backend
               [(''http://localhost:3001/api/users?limit=1'',
                 json_ok (JObj [(''data'', JArr []), (''pagination'', JObj [(''total_count'', JNum 150)])])),
                (''http://localhost:3002/api/programs?limit=1'',
                 json_ok (JObj [(''data'', JArr [])]))]"]
        partial_failure_fallbacks
          [where sv = example_services and now = example_now and now0 = example_now
             and toISO = example_toISO
             and req = "example_request (example_identity ''trainer-1'' ''trainer'') ''trainer-1'' JUndefined"
             and backend = "example_backend
               [(''http://localhost:3001/api/users/trainer-1'',
                 json_ok (JObj [(''data'', JObj [(''id'', JStr ''trainer-1'')])])),
                (''http://localhost:8003/api/bookings?trainer_id=trainer-1&limit=20'',
                 json_ok (JObj [(''data'',
                    JArr [example_booking ''book-2'' ''2024-03-07'' ''Today Client''])]))]"]
  by (simp add: client_denied_eq admin_denied_eq anonymous_request_def
      client_profile_call_def client_programs_call_def client_bookings_call_def
      client_analytics_call_def admin_users_call_def admin_trainers_call_def
      admin_clients_call_def admin_programs_call_def example_services_eq
      example_backend_def axios_get_def json_ok_def readable_def nullish_def
      extracted_data_def extracted_count_def orElse_def client_calls_def admin_calls_def
      trainer_denied_eq example_request_def example_identity_def trainer_profile_call_def
      trainer_programs_call_def trainer_bookings_call_def readable_list_def
      readable_bookings_def readable_record_def extracted_length_def extracted_schedule_def
      dated_today_def example_booking_def example_today example_normalised example_dates)

section \<open>Validated booking: faults at the two steps\<close>

lemma role_read:
  "propOf (propOf d ''data'') ''role'' = JStr ''trainer'' \<Longrightarrow>
   andThen (getProp d ''data'') (\<lambda>u. getProp u ''role'') = Inr (JStr ''trainer'')"
  by (cases d; cases "propOf d ''data''") (simp_all add: andThen_def getProp_def nullish_def)

text \<open>A conversion to a string throws nothing but a TypeError.\<close>

lemma join_comma_throws:
  "\<forall>r\<in>set rs. \<forall>e. r = Inl e \<longrightarrow> e = TypeError \<Longrightarrow> join_comma rs = Inl e \<Longrightarrow> e = TypeError"
proof (induction rs arbitrary: e)
  case Nil
  then show ?case by simp
next
  case (Cons r rs)
  show ?case
  proof (cases r)
    case (Inl e0)
    with Cons.prems show ?thesis by (simp add: andThen_def)
  next
    case (Inr s)
    with Cons.prems(2) have "join_comma rs = Inl e"
      by (simp add: andThen_def split: sum.splits)
    moreover from Cons.prems(1) have "\<forall>r\<in>set rs. \<forall>e. r = Inl e \<longrightarrow> e = TypeError" by simp
    ultimately show ?thesis by (rule Cons.IH[rotated])
  qed
qed

lemma ToString_throws: "ToString expForm v = Inl e \<Longrightarrow> e = TypeError"
proof (induction expForm v arbitrary: e rule: ToString.induct)
  case (6 expForm xs)
  have all: "\<forall>r\<in>set (map (\<lambda>x. if nullish x then Inr [] else ToString expForm x) xs).
          \<forall>e'. r = Inl e' \<longrightarrow> e' = TypeError"
  proof (intro ballI allI impI)
    fix r e'
    assume "r \<in> set (map (\<lambda>x. if nullish x then Inr [] else ToString expForm x) xs)"
      and thrown: "r = Inl e'"
    then obtain x where x: "x \<in> set xs"
      and r: "r = (if nullish x then Inr [] else ToString expForm x)"
      by auto
    show "e' = TypeError"
    proof (cases "nullish x")
      case True
      with r thrown show ?thesis by simp
    next
      case False
      with r thrown have "ToString expForm x = Inl e'" by simp
      with x False show ?thesis by (rule "6.IH")
    qed
  qed
  from "6.prems"
  have "join_comma (map (\<lambda>x. if nullish x then Inr [] else ToString expForm x) xs) = Inl e"
    by simp
  with all show ?case by (rule join_comma_throws)
qed (simp_all split: if_splits)

lemma booking_lookup_throws:
  "booking_lookup_call expForm sv token f = Inl e \<Longrightarrow> e = TypeError"
  by (auto simp: booking_lookup_call_def andThen_def split: sum.splits dest: ToString_throws)

lemma booking_lookup_shape:
  "booking_lookup_call expForm sv token f = Inr lookup \<Longrightarrow>
   call_method lookup = ''GET'' \<and> call_data lookup = JUndefined"
  by (auto simp: booking_lookup_call_def andThen_def axios_get_def split: sum.splits)

lemma booking_lookup_rejected:
  "\<not> nullish (body req) \<Longrightarrow>
   booking_lookup_call expForm sv (authorization req) (destructure_body (body req)) = Inr lookup \<Longrightarrow>
   backend lookup = Rejected reason \<Longrightarrow>
   validatedBooking expForm sv backend req = (invalid_trainer, [lookup])"
  by (simp add: validatedBooking_def validatedBooking_try_def Let_def)

lemma booking_create_rejected:
  "\<not> nullish (body req) \<Longrightarrow>
   booking_lookup_call expForm sv (authorization req) (destructure_body (body req)) = Inr lookup \<Longrightarrow>
   backend lookup = Fulfilled r \<Longrightarrow>
   propOf (propOf (data r) ''data'') ''role'' = JStr ''trainer'' \<Longrightarrow>
   backend (booking_create_call sv (authorization req) (destructure_body (body req))) = Rejected reason \<Longrightarrow>
   validatedBooking expForm sv backend req =
     (booking_catch (AxiosError reason),
      [lookup, booking_create_call sv (authorization req) (destructure_body (body req))])"
  by (simp add: validatedBooking_def validatedBooking_try_def Let_def role_read)

text \<open>
  When the body cannot be read, or \<open>trainer_id\<close> cannot be converted for the URL, the
  handler throws before any call and answers BOOKING_FAILED.
\<close>

lemma booking_fails_before_lookup:
  assumes "nullish (body req)
   \<or> booking_lookup_call expForm sv (authorization req) (destructure_body (body req)) = Inl e"
  shows "validatedBooking expForm sv backend req = (booking_failed, [])"
proof (cases "nullish (body req)")
  case True
  then show ?thesis
    by (simp add: validatedBooking_def validatedBooking_try_def Let_def booking_catch_def)
next
  case False
  with assms
  have thrown: "booking_lookup_call expForm sv (authorization req) (destructure_body (body req))
      = Inl e"
    by simp
  then have "e = TypeError" by (rule booking_lookup_throws)
  with False thrown show ?thesis
    by (simp add: validatedBooking_def validatedBooking_try_def Let_def booking_catch_def)
qed

lemma unconvertible_trainer_id_example:
  "validatedBooking example_expForm example_services (example_backend [])
     (example_request JUndefined [] (JObj [(''trainer_id'', JObj [(''toString'', JNum 1)])]))
   = (\<lparr> res_status = 500,
        res_json = JObj [(''success'', JBool False),
                         (''error'', JObj [(''code'', JStr ''BOOKING_FAILED''),
                                           (''message'', JStr ''Failed to create booking'')])] \<rparr>,
      [])"
  by (simp add: validatedBooking_def validatedBooking_try_def Let_def booking_catch_def
      booking_lookup_call_def destructure_body_def example_request_def nullish_cases
      andThen_def booking_failed_def error_envelope_def)

lemma example_booking_calls:
  "booking_lookup_call example_expForm example_services (authorization example_booking_request)
      (destructure_body (body example_booking_request))
     = Inr (axios_get ''http://localhost:3001/api/users/trainer-1''
              (Some ''Bearer header.payload.signature''))"
  "booking_create_call example_services (authorization example_booking_request)
      (destructure_body (body example_booking_request))
     = axios_post ''http://localhost:8003/api/bookings''
         (JObj [(''trainer_id'', JStr ''trainer-1''), (''booking_date'', JStr ''2024-03-08''),
                (''start_time'', JStr ''09:00''), (''end_time'', JStr ''10:00''),
                (''type'', JStr ''personal''), (''gym_id'', JNum 7), (''notes'', JUndefined)])
         (Some ''Bearer header.payload.signature'')"
  by (simp_all add: booking_lookup_call_def booking_create_call_def destructure_body_def
      example_booking_request_def example_services_eq andThen_def)

lemma example_booking_body: "nullish (body example_booking_request) = False"
  by (simp add: example_booking_request_def nullish_def)

text \<open>
  C4, as stated, fails at the trainer-verification step: when the lookup cannot reach the
  user service (a transport fault, no response), the answer is INVALID_TRAINER at status
  400, not BOOKING_FAILED at a server-error status.
\<close>

theorem lookup_fault_counterexample:
  "example_backend [] (axios_get ''http://localhost:3001/api/users/trainer-1''
                         (Some ''Bearer header.payload.signature'')) = Rejected None
   \<and> validatedBooking example_expForm example_services (example_backend [])
        example_booking_request
       = (\<lparr> res_status = 400,
            res_json = JObj [(''success'', JBool False),
                             (''error'', JObj [(''code'', JStr ''INVALID_TRAINER''),
                                               (''message'', JStr ''Invalid trainer ID'')])] \<rparr>,
          [axios_get ''http://localhost:3001/api/users/trainer-1''
             (Some ''Bearer header.payload.signature'')])"
  by (simp add: validatedBooking_def validatedBooking_try_def Let_def example_booking_calls
      example_backend_def invalid_trainer_def error_envelope_def example_booking_body
      axios_get_def)

text \<open>
  C4, amended. In \<open>POST /api/bookings/validated\<close>, for a request whose body can be read
  and whose \<open>trainer_id\<close> can be converted to a string for the lookup URL (so that the
  lookup is issued): every rejection of the trainer lookup, a transport fault or an error
  response of the user service alike, is answered INVALID_TRAINER at status 400 and the
  create call is not issued. Once the trainer is confirmed, a transport fault of the
  create call is answered BOOKING_FAILED at status 500, and an error response of the
  scheduling backend is passed through with its exact status and body.
\<close>

theorem booking_faults:
  "(\<not> nullish (body req)
      \<and> booking_lookup_call expForm sv (authorization req) (destructure_body (body req))
          = Inr lookup
      \<and> backend lookup = Rejected reason
    \<longrightarrow> validatedBooking expForm sv backend req =
          (\<lparr> res_status = 400,
             res_json = JObj [(''success'', JBool False),
                              (''error'', JObj [(''code'', JStr ''INVALID_TRAINER''),
                                                (''message'', JStr ''Invalid trainer ID'')])] \<rparr>,
           [lookup]))
   \<and> (\<not> nullish (body req)
      \<and> booking_lookup_call expForm sv (authorization req) (destructure_body (body req))
          = Inr lookup
      \<and> backend lookup = Fulfilled r
      \<and> propOf (propOf (data r) ''data'') ''role'' = JStr ''trainer''
      \<and> backend (booking_create_call sv (authorization req) (destructure_body (body req)))
          = Rejected None
    \<longrightarrow> validatedBooking expForm sv backend req =
          (\<lparr> res_status = 500,
             res_json = JObj [(''success'', JBool False),
                              (''error'', JObj [(''code'', JStr ''BOOKING_FAILED''),
                                                (''message'', JStr ''Failed to create booking'')])] \<rparr>,
           [lookup,
            booking_create_call sv (authorization req) (destructure_body (body req))]))
   \<and> (\<not> nullish (body req)
      \<and> booking_lookup_call expForm sv (authorization req) (destructure_body (body req))
          = Inr lookup
      \<and> backend lookup = Fulfilled r
      \<and> propOf (propOf (data r) ''data'') ''role'' = JStr ''trainer''
      \<and> backend (booking_create_call sv (authorization req) (destructure_body (body req)))
          = Rejected (Some er)
    \<longrightarrow> validatedBooking expForm sv backend req =
          (\<lparr> res_status = status er, res_json = data er \<rparr>,
           [lookup,
            booking_create_call sv (authorization req) (destructure_body (body req))]))"
  by (simp add: booking_lookup_rejected booking_create_rejected booking_catch_def
      invalid_trainer_def booking_failed_def error_envelope_def)

theorem booking_faults_witness:
  "validatedBooking example_expForm example_services (example_backend [])
        example_booking_request
       = (\<lparr> res_status = 400,
            res_json = JObj [(''success'', JBool False),
                             (''error'', JObj [(''code'', JStr ''INVALID_TRAINER''),
                                               (''message'', JStr ''Invalid trainer ID'')])] \<rparr>,
          [axios_get ''http://localhost:3001/api/users/trainer-1''
             (Some ''Bearer header.payload.signature'')])
   \<and> fst (validatedBooking example_expForm example_services (example_backend [trainer_found])
            example_booking_request)
       = \<lparr> res_status = 500,
            res_json = JObj [(''success'', JBool False),
                             (''error'', JObj [(''code'', JStr ''BOOKING_FAILED''),
                                               (''message'', JStr ''Failed to create booking'')])] \<rparr>
   \<and> fst (validatedBooking example_expForm example_services
        (example_backend [trainer_found,
           (''http://localhost:8003/api/bookings'',
            Rejected (Some \<lparr> status = 409, data = JObj [(''detail'', JStr ''slot taken'')] \<rparr>))])
        example_booking_request)
       = \<lparr> res_status = 409, res_json = JObj [(''detail'', JStr ''slot taken'')] \<rparr>"
  using booking_faults
          [where expForm = example_expForm and sv = example_services
             and backend = "example_backend []"
             and req = example_booking_request and reason = None
             and lookup = "axios_get ''http://localhost:3001/api/users/trainer-1''
                             (Some ''Bearer header.payload.signature'')"]
        booking_faults
          [where expForm = example_expForm and sv = example_services
             and backend = "example_backend [trainer_found]"
             and req = example_booking_request
             and lookup = "axios_get ''http://localhost:3001/api/users/trainer-1''
                             (Some ''Bearer header.payload.signature'')"
             and r = "\<lparr> status = 200, data = JObj [(''success'', JBool True),
                     (''data'', JObj [(''id'', JStr ''trainer-1''), (''role'', JStr ''trainer'')])] \<rparr>"]
        booking_faults
          [where expForm = example_expForm and sv = example_services
             and backend = "example_backend [trainer_found,
                   (''http://localhost:8003/api/bookings'',
                    Rejected (Some \<lparr> status = 409, data = JObj [(''detail'', JStr ''slot taken'')] \<rparr>))]"
             and req = example_booking_request
             and lookup = "axios_get ''http://localhost:3001/api/users/trainer-1''
                             (Some ''Bearer header.payload.signature'')"
             and r = "\<lparr> status = 200, data = JObj [(''success'', JBool True),
                     (''data'', JObj [(''id'', JStr ''trainer-1''), (''role'', JStr ''trainer'')])] \<rparr>"
             and er = "\<lparr> status = 409, data = JObj [(''detail'', JStr ''slot taken'')] \<rparr>"]
  by (simp add: example_booking_calls example_backend_def trainer_found_def json_ok_def
      axios_get_def axios_post_def example_booking_body)

section \<open>Validated booking: what is forwarded\<close>

text \<open>
  C9. No call issued by \<open>POST /api/bookings/validated\<close> carries a \<open>client_id\<close>
  field, and the body posted to the scheduling backend is the object of exactly the seven
  fields \<open>trainer_id\<close>, \<open>booking_date\<close>, \<open>start_time\<close>, \<open>end_time\<close>, \<open>type\<close>,
  \<open>gym_id\<close>, \<open>notes\<close>, read from the inbound body.
\<close>

theorem create_body_fields:
  "c \<in> set (snd (validatedBooking expForm sv backend req)) \<longrightarrow>
     \<not> hasProp (call_data c) ''client_id''
     \<and> (call_method c = ''POST'' \<longrightarrow>
          call_data c =
            JObj [(''trainer_id'', propOf (body req) ''trainer_id''),
                  (''booking_date'', propOf (body req) ''booking_date''),
                  (''start_time'', propOf (body req) ''start_time''),
                  (''end_time'', propOf (body req) ''end_time''),
                  (''type'', propOf (body req) ''type''),
                  (''gym_id'', propOf (body req) ''gym_id''),
                  (''notes'', propOf (body req) ''notes'')])"
  by (auto simp: validatedBooking_def validatedBooking_try_def Let_def
      booking_create_call_def axios_post_def destructure_body_def
      dest: booking_lookup_shape
      split: if_splits settled.splits sum.splits)

theorem create_body_fields_witness:
  "hasProp (body example_booking_request) ''client_id''
   \<and> snd (validatedBooking example_expForm example_services
        (example_backend [trainer_found,
           (''http://localhost:8003/api/bookings'',
            Fulfilled \<lparr> status = 201, data = JObj [(''success'', JBool True)] \<rparr>)])
        example_booking_request)
       = [axios_get ''http://localhost:3001/api/users/trainer-1''
            (Some ''Bearer header.payload.signature''),
          axios_post ''http://localhost:8003/api/bookings''
            (JObj [(''trainer_id'', JStr ''trainer-1''), (''booking_date'', JStr ''2024-03-08''),
                   (''start_time'', JStr ''09:00''), (''end_time'', JStr ''10:00''),
                   (''type'', JStr ''personal''), (''gym_id'', JNum 7), (''notes'', JUndefined)])
            (Some ''Bearer header.payload.signature'')]
   \<and> \<not> hasProp
        (call_data (axios_post ''http://localhost:8003/api/bookings''
            (JObj [(''trainer_id'', JStr ''trainer-1''), (''booking_date'', JStr ''2024-03-08''),
                   (''start_time'', JStr ''09:00''), (''end_time'', JStr ''10:00''),
                   (''type'', JStr ''personal''), (''gym_id'', JNum 7), (''notes'', JUndefined)])
            (Some ''Bearer header.payload.signature''))) ''client_id''"
proof -
  have calls: "snd (validatedBooking example_expForm example_services
        (example_backend [trainer_found,
           (''http://localhost:8003/api/bookings'',
            Fulfilled \<lparr> status = 201, data = JObj [(''success'', JBool True)] \<rparr>)])
        example_booking_request)
       = [axios_get ''http://localhost:3001/api/users/trainer-1''
            (Some ''Bearer header.payload.signature''),
          axios_post ''http://localhost:8003/api/bookings''
            (JObj [(''trainer_id'', JStr ''trainer-1''), (''booking_date'', JStr ''2024-03-08''),
                   (''start_time'', JStr ''09:00''), (''end_time'', JStr ''10:00''),
                   (''type'', JStr ''personal''), (''gym_id'', JNum 7), (''notes'', JUndefined)])
            (Some ''Bearer header.payload.signature'')]"
    by (simp add: validatedBooking_def validatedBooking_try_def Let_def example_booking_calls
        example_booking_body example_backend_def trainer_found_def json_ok_def axios_get_def
        axios_post_def andThen_def getProp_def nullish_cases)
  have given: "hasProp (body example_booking_request) ''client_id''"
    by (simp add: example_booking_request_def)
  from create_body_fields
         [where expForm = example_expForm and sv = example_services
            and req = example_booking_request
            and backend = "example_backend [trainer_found,
               (''http://localhost:8003/api/bookings'',
                Fulfilled \<lparr> status = 201, data = JObj [(''success'', JBool True)] \<rparr>)]"
            and c = "axios_post ''http://localhost:8003/api/bookings''
              (JObj [(''trainer_id'', JStr ''trainer-1''), (''booking_date'', JStr ''2024-03-08''),
                     (''start_time'', JStr ''09:00''), (''end_time'', JStr ''10:00''),
                     (''type'', JStr ''personal''), (''gym_id'', JNum 7), (''notes'', JUndefined)])
              (Some ''Bearer header.payload.signature'')"]
  have "\<not> hasProp
        (call_data (axios_post ''http://localhost:8003/api/bookings''
            (JObj [(''trainer_id'', JStr ''trainer-1''), (''booking_date'', JStr ''2024-03-08''),
                   (''start_time'', JStr ''09:00''), (''end_time'', JStr ''10:00''),
                   (''type'', JStr ''personal''), (''gym_id'', JNum 7), (''notes'', JUndefined)])
            (Some ''Bearer header.payload.signature''))) ''client_id''"
    unfolding calls by simp
  with calls given show ?thesis by simp
qed

section \<open>The shape of the gateway's own responses\<close>

lemma failure_envelope_error_envelope: "failure_envelope (error_envelope c m)"
  by (simp add: failure_envelope_def error_envelope_def)

lemma stamp_error_envelope: "stamp_at (error_envelope c m) NoStamp"
  by (simp add: stamp_at_def error_envelope_def)

lemma clientDashboard_responses:
  "fst (clientDashboard sv backend now req) = forbidden ''Cannot access other client dashboards''
   \<or> fst (clientDashboard sv backend now req) = dashboard_error
   \<or> (\<exists>payload. fst (clientDashboard sv backend now req) = success_envelope payload now)"
  by (auto simp: clientDashboard_def client_denied_eq split: sum.splits)

lemma trainerDashboard_responses:
  "fst (trainerDashboard sv backend toISO now0 now req) = forbidden ''Cannot access other trainer dashboards''
   \<or> fst (trainerDashboard sv backend toISO now0 now req) = dashboard_error
   \<or> (\<exists>payload. fst (trainerDashboard sv backend toISO now0 now req) = success_envelope payload now)"
  by (auto simp: trainerDashboard_def trainer_denied_eq Let_def split: sum.splits)

lemma adminDashboard_responses:
  "fst (adminDashboard sv backend now req) = forbidden ''Admin access required''
   \<or> fst (adminDashboard sv backend now req) = dashboard_error
   \<or> (\<exists>payload. fst (adminDashboard sv backend now req) = success_envelope payload now)"
  by (auto simp: adminDashboard_def admin_denied_eq split: sum.splits)

lemma role_read_throws:
  "andThen (getProp d ''data'') (\<lambda>u. getProp u ''role'') = Inl e \<Longrightarrow> e = TypeError"
  by (auto simp: andThen_def getProp_def split: if_splits)

lemma validatedBooking_responses:
  "fst (validatedBooking expForm sv backend req) = invalid_trainer
   \<or> fst (validatedBooking expForm sv backend req) = booking_failed
   \<or> (\<exists>booking. backend (booking_create_call sv (authorization req) (destructure_body (body req)))
                    = Fulfilled booking
         \<and> fst (validatedBooking expForm sv backend req) = \<lparr> res_status = 201, res_json = data booking \<rparr>)
   \<or> (\<exists>er. backend (booking_create_call sv (authorization req) (destructure_body (body req)))
                    = Rejected (Some er)
         \<and> fst (validatedBooking expForm sv backend req) = \<lparr> res_status = status er, res_json = data er \<rparr>)"
  by (auto simp: validatedBooking_def validatedBooking_try_def Let_def booking_catch_def
      dest!: role_read_throws booking_lookup_throws
      split: sum.splits settled.splits option.splits)

text \<open>
  C5, as stated, fails: the authorization denial of the client dashboard has no
  \<open>timestamp\<close> field, neither at the top nor inside \<open>error\<close>, and neither has the
  rate limiter's message.
\<close>

theorem forbidden_without_timestamp_counterexample:
  "clientDashboard example_services (example_backend []) example_now
      (example_request (example_identity ''client-123'' ''client'') ''client-456'' JUndefined)
     = (\<lparr> res_status = 403,
          res_json = JObj [(''success'', JBool False),
                           (''error'', JObj [(''code'', JStr ''FORBIDDEN''),
                              (''message'', JStr ''Cannot access other client dashboards'')])] \<rparr>,
        [])
   \<and> \<not> hasProp (JObj [(''success'', JBool False),
                       (''error'', JObj [(''code'', JStr ''FORBIDDEN''),
                          (''message'', JStr ''Cannot access other client dashboards'')])])
          ''timestamp''
   \<and> \<not> hasProp (JObj [(''code'', JStr ''FORBIDDEN''),
                       (''message'', JStr ''Cannot access other client dashboards'')])
          ''timestamp''
   \<and> \<not> hasProp limiter_message ''timestamp''"
  by (simp add: clientDashboard_def client_denied_eq example_request_def example_identity_def
      forbidden_def error_envelope_def limiter_message_def)

text \<open>
  C5, amended. Every response the gateway builds itself has a boolean \<open>success\<close> and
  either \<open>data\<close> (success) or \<open>error\<close> with a \<open>code\<close> and a \<open>message\<close> (failure). The
  timestamp is a top-level field only of the aggregation success envelope; the proxy
  error, not-found and internal-error envelopes carry it inside \<open>error\<close>; the
  authorization denials, the rate-limit message and the DASHBOARD_ERROR, INVALID_TRAINER
  and BOOKING_FAILED envelopes carry none. The three dashboards answer with nothing but
  these envelopes, and the validated booking with them or with a backend's own status and
  body.
\<close>

theorem envelope_shapes:
  "(failure_envelope (res_json (proxy_onError now)) \<and> stamp_at (res_json (proxy_onError now)) InError)
   \<and> (failure_envelope (res_json (notFound now req)) \<and> stamp_at (res_json (notFound now req)) InError)
   \<and> (failure_envelope (res_json (errorHandler now req))
        \<and> stamp_at (res_json (errorHandler now req)) InError)
   \<and> (failure_envelope limiter_message \<and> stamp_at limiter_message NoStamp)
   \<and> (failure_envelope (res_json (forbidden message)) \<and> stamp_at (res_json (forbidden message)) NoStamp)
   \<and> (failure_envelope (res_json dashboard_error) \<and> stamp_at (res_json dashboard_error) NoStamp)
   \<and> (failure_envelope (res_json invalid_trainer) \<and> stamp_at (res_json invalid_trainer) NoStamp)
   \<and> (failure_envelope (res_json booking_failed) \<and> stamp_at (res_json booking_failed) NoStamp)
   \<and> (success_shape (res_json (success_envelope payload now))
        \<and> stamp_at (res_json (success_envelope payload now)) AtTop)
   \<and> (fst (clientDashboard sv backend now req) = forbidden ''Cannot access other client dashboards''
        \<or> fst (clientDashboard sv backend now req) = dashboard_error
        \<or> (\<exists>p. fst (clientDashboard sv backend now req) = success_envelope p now))
   \<and> (fst (trainerDashboard sv backend toISO now0 now req)
          = forbidden ''Cannot access other trainer dashboards''
        \<or> fst (trainerDashboard sv backend toISO now0 now req) = dashboard_error
        \<or> (\<exists>p. fst (trainerDashboard sv backend toISO now0 now req) = success_envelope p now))
   \<and> (fst (adminDashboard sv backend now req) = forbidden ''Admin access required''
        \<or> fst (adminDashboard sv backend now req) = dashboard_error
        \<or> (\<exists>p. fst (adminDashboard sv backend now req) = success_envelope p now))
   \<and> (fst (validatedBooking expForm sv backend req) = invalid_trainer
        \<or> fst (validatedBooking expForm sv backend req) = booking_failed
        \<or> (\<exists>booking. backend (booking_create_call sv (authorization req) (destructure_body (body req)))
                         = Fulfilled booking
              \<and> fst (validatedBooking expForm sv backend req)
                  = \<lparr> res_status = 201, res_json = data booking \<rparr>)
        \<or> (\<exists>er. backend (booking_create_call sv (authorization req) (destructure_body (body req)))
                    = Rejected (Some er)
              \<and> fst (validatedBooking expForm sv backend req)
                  = \<lparr> res_status = status er, res_json = data er \<rparr>))"
proof (intro conjI)
  show "failure_envelope (res_json (proxy_onError now))"
    by (simp add: failure_envelope_def proxy_onError_def)
  show "stamp_at (res_json (proxy_onError now)) InError"
    by (simp add: stamp_at_def proxy_onError_def)
  show "failure_envelope (res_json (notFound now req))"
    by (simp add: failure_envelope_def notFound_def)
  show "stamp_at (res_json (notFound now req)) InError"
    by (simp add: stamp_at_def notFound_def)
  show "failure_envelope (res_json (errorHandler now req))"
    by (simp add: failure_envelope_def errorHandler_def)
  show "stamp_at (res_json (errorHandler now req)) InError"
    by (simp add: stamp_at_def errorHandler_def)
  show "failure_envelope limiter_message"
    by (simp add: failure_envelope_def limiter_message_def)
  show "stamp_at limiter_message NoStamp"
    by (simp add: stamp_at_def limiter_message_def)
  show "failure_envelope (res_json (forbidden message))"
    by (simp add: forbidden_def failure_envelope_error_envelope)
  show "stamp_at (res_json (forbidden message)) NoStamp"
    by (simp add: forbidden_def stamp_error_envelope)
  show "failure_envelope (res_json dashboard_error)"
    by (simp add: dashboard_error_def failure_envelope_error_envelope)
  show "stamp_at (res_json dashboard_error) NoStamp"
    by (simp add: dashboard_error_def stamp_error_envelope)
  show "failure_envelope (res_json invalid_trainer)"
    by (simp add: invalid_trainer_def failure_envelope_error_envelope)
  show "stamp_at (res_json invalid_trainer) NoStamp"
    by (simp add: invalid_trainer_def stamp_error_envelope)
  show "failure_envelope (res_json booking_failed)"
    by (simp add: booking_failed_def failure_envelope_error_envelope)
  show "stamp_at (res_json booking_failed) NoStamp"
    by (simp add: booking_failed_def stamp_error_envelope)
  show "success_shape (res_json (success_envelope payload now))"
    by (simp add: success_shape_def success_envelope_def)
  show "stamp_at (res_json (success_envelope payload now)) AtTop"
    by (simp add: stamp_at_def success_envelope_def)
qed (rule clientDashboard_responses trainerDashboard_responses adminDashboard_responses
      validatedBooking_responses)+

theorem envelope_shapes_witness:
  "stamp_at (res_json (proxy_onError example_now)) InError
   \<and> stamp_at (res_json (notFound example_now anonymous_request)) InError
   \<and> stamp_at (res_json (errorHandler example_now anonymous_request)) InError
   \<and> stamp_at limiter_message NoStamp
   \<and> stamp_at (res_json (fst (clientDashboard example_services (example_backend []) example_now
        (example_request (example_identity ''client-123'' ''client'') ''client-456'' JUndefined))))
        NoStamp
   \<and> stamp_at (res_json (fst (adminDashboard example_services (example_backend []) example_now
        anonymous_request))) AtTop"
proof -
  note inst = envelope_shapes
      [where now = example_now and req = anonymous_request
         and message = "''Cannot access other client dashboards''"
         and payload = "JObj [(''total_users'', JNum 0), (''total_trainers'', JNum 0),
                              (''total_clients'', JNum 0), (''total_programs'', JNum 0)]"
         and sv = example_services and backend = "example_backend []"
         and expForm = example_expForm]
  have denied: "fst (clientDashboard example_services (example_backend []) example_now
        (example_request (example_identity ''client-123'' ''client'') ''client-456'' JUndefined))
      = forbidden ''Cannot access other client dashboards''"
    by (simp add: clientDashboard_def client_denied_eq example_request_def example_identity_def)
  have granted: "fst (adminDashboard example_services (example_backend []) example_now
        anonymous_request)
      = success_envelope (JObj [(''total_users'', JNum 0), (''total_trainers'', JNum 0),
                              (''total_clients'', JNum 0), (''total_programs'', JNum 0)]) example_now"
    by (simp add: adminDashboard_def admin_denied_eq anonymous_request_def example_backend_def
        admin_payload_def slot_total_count_def andThen_def)
  from inst show ?thesis unfolding denied granted by blast
qed

section \<open>The trainer's schedule of the day\<close>

lemma dated_today_conform:
  "dateOnly toISO (JStr today) = Some today \<Longrightarrow>
   dated_today toISO today b = (dateOnly toISO (propOf b ''booking_date'') = Some today)"
  by (auto simp: dated_today_def)

lemma dated_today_filter:
  "dateOnly toISO (JStr today) = Some today \<Longrightarrow>
   filter (dated_today toISO today) bs
     = filter (\<lambda>b. dateOnly toISO (propOf b ''booking_date'') = Some today) bs"
  by (simp add: dated_today_conform cong: filter_cong)

lemma example_unreadable: "example_toISO (JStr ''tomorrow'') = None"
  by code_simp

text \<open>
  C7, as stated, fails: the schedule is not the filter of every collected list. Here the
  bookings call fulfils with a record dated today and a record whose date, the word
  \<open>tomorrow\<close>, cannot be read. The record of today is in no \<open>today_schedule\<close>: the
  filter throws and the answer is DASHBOARD_ERROR, with no payload.
\<close>

theorem schedule_lost_counterexample:
  "dateOnly example_toISO
      (propOf (example_booking ''book-2'' ''2024-03-07'' ''Today Client'') ''booking_date'')
     = Some (split_T_0 example_now)
   \<and> trainerDashboard example_services
        (example_backend
           [(''http://localhost:8003/api/bookings?trainer_id=trainer-1&limit=20'',
             json_ok (JObj [(''data'',
                JArr [example_booking ''book-2'' ''2024-03-07'' ''Today Client'',
                      example_booking ''book-7'' ''tomorrow'' ''Walk-in''])]))])
        example_toISO example_now example_now
        (example_request (example_identity ''trainer-1'' ''trainer'') ''trainer-1'' JUndefined)
     = (\<lparr> res_status = 500,
          res_json = JObj [(''success'', JBool False),
                           (''error'', JObj [(''code'', JStr ''DASHBOARD_ERROR''),
                                             (''message'', JStr ''Failed to load dashboard'')])] \<rparr>,
        [axios_get ''http://localhost:3001/api/users/trainer-1''
           (Some ''Bearer header.payload.signature''),
         axios_get ''http://localhost:3002/api/programs?trainer_id=trainer-1&status=active&limit=10''
           (Some ''Bearer header.payload.signature''),
         axios_get ''http://localhost:8003/api/bookings?trainer_id=trainer-1&limit=20''
           (Some ''Bearer header.payload.signature''),
         axios_get ''http://localhost:3001/api/users?role=client&limit=50''
           (Some ''Bearer header.payload.signature'')])"
  by (simp add: trainerDashboard_def trainer_denied_eq example_request_def example_identity_def
      trainer_calls_def trainer_profile_call_def trainer_programs_call_def
      trainer_bookings_call_def trainer_clients_call_def example_services_eq
      example_backend_def axios_get_def json_ok_def example_booking_def example_dates
      example_today example_normalised example_unreadable Let_def
      trainer_payload_def todaySchedule_def andThen_def getProp_def nullish_cases isToday_def
      dashboard_error_def error_envelope_def)

text \<open>
  C7, amended. When the access check of the trainer dashboard passes, the bookings call
  fulfils with a list of records whose stored dates the runtime's \<open>Date\<close> can all read,
  and the handler's other reads succeed (a readable profile body, a programs list with a
  length), the answer has status 200 and its \<open>today_schedule\<close> is the list of exactly
  the collected records whose stored date, normalised to a date-only string, is the current
  date (the date part of the clock reading taken before the fan-out), in their order. Given
  bookings dated yesterday, today and tomorrow, it is the one dated today. The runtime's
  \<open>Date\<close> is taken to read the current date's own string back, as ECMAScript requires
  of the form \<open>YYYY-MM-DD\<close>; this is what makes the shortcut
  \<open>b.booking_date === today\<close> agree with the normalised comparison.
\<close>

theorem today_schedule_of_dashboard:
  "trainer_denied req = Inr False
   \<and> readable (backend (trainer_profile_call sv req))
   \<and> readable_list (backend (trainer_programs_call sv req))
   \<and> backend (trainer_bookings_call sv req) = Fulfilled r
   \<and> propOf (data r) ''data'' = JArr bs
   \<and> (\<forall>b\<in>set bs. \<not> nullish b \<and> toISO (propOf b ''booking_date'') \<noteq> None)
   \<and> dateOnly toISO (JStr (split_T_0 now0)) = Some (split_T_0 now0)
   \<longrightarrow> res_status (fst (trainerDashboard sv backend toISO now0 now req)) = 200
      \<and> propOf (propOf (res_json (fst (trainerDashboard sv backend toISO now0 now req))) ''data'')
           ''today_schedule''
          = JArr (filter (\<lambda>b. dateOnly toISO (propOf b ''booking_date'') = Some (split_T_0 now0))
                    bs)"
proof (intro impI, elim conjE)
  assume pass: "trainer_denied req = Inr False"
    and p1: "readable (backend (trainer_profile_call sv req))"
    and p2: "readable_list (backend (trainer_programs_call sv req))"
    and slot: "backend (trainer_bookings_call sv req) = Fulfilled r"
    and arr: "propOf (data r) ''data'' = JArr bs"
    and ok: "\<forall>b\<in>set bs. \<not> nullish b \<and> toISO (propOf b ''booking_date'') \<noteq> None"
    and conf: "dateOnly toISO (JStr (split_T_0 now0)) = Some (split_T_0 now0)"
  from ok have "list_all (readable_record toISO (split_T_0 now0)) bs"
    by (simp add: list_all_iff readable_record_def)
  with slot arr
  have p3: "readable_bookings toISO (split_T_0 now0) (backend (trainer_bookings_call sv req))"
    by (simp add: readable_bookings_def)
  have sched: "extracted_schedule toISO (split_T_0 now0) (backend (trainer_bookings_call sv req))
      = filter (\<lambda>b. dateOnly toISO (propOf b ''booking_date'') = Some (split_T_0 now0)) bs"
    using slot arr by (simp add: extracted_schedule_def dated_today_filter[OF conf])
  from pass trainer_payload_readable[OF p1 p2 p3]
  have "fst (trainerDashboard sv backend toISO now0 now req)
      = success_envelope
          (JObj [(''profile'', extracted_data (backend (trainer_profile_call sv req)) JNull),
                 (''active_clients'', extracted_length (backend (trainer_programs_call sv req))),
                 (''today_schedule'',
                  JArr (extracted_schedule toISO (split_T_0 now0)
                          (backend (trainer_bookings_call sv req)))),
                 (''recent_programs'',
                  extracted_data (backend (trainer_programs_call sv req)) (JArr []))])
          now"
    by (simp add: trainerDashboard_def Let_def)
  then show "res_status (fst (trainerDashboard sv backend toISO now0 now req)) = 200
      \<and> propOf (propOf (res_json (fst (trainerDashboard sv backend toISO now0 now req))) ''data'')
           ''today_schedule''
          = JArr (filter (\<lambda>b. dateOnly toISO (propOf b ''booking_date'') = Some (split_T_0 now0))
                    bs)"
    by (simp add: success_envelope_def sched)
qed

theorem today_schedule_of_dashboard_witness:
  "res_status (fst (trainerDashboard example_services
      (example_backend
         [(''http://localhost:8003/api/bookings?trainer_id=trainer-1&limit=20'',
           json_ok (JObj [(''data'',
              JArr [example_booking ''book-1'' ''2024-03-06'' ''Past Client'',
                    example_booking ''book-2'' ''2024-03-07'' ''Today Client'',
                    example_booking ''book-3'' ''2024-03-08'' ''Future Client''])]))])
      example_toISO example_now example_now
      (example_request (example_identity ''trainer-1'' ''trainer'') ''trainer-1'' JUndefined)))
     = 200
   \<and> propOf (propOf (res_json (fst (trainerDashboard example_services
      (example_backend
         [(''http://localhost:8003/api/bookings?trainer_id=trainer-1&limit=20'',
           json_ok (JObj [(''data'',
              JArr [example_booking ''book-1'' ''2024-03-06'' ''Past Client'',
                    example_booking ''book-2'' ''2024-03-07'' ''Today Client'',
                    example_booking ''book-3'' ''2024-03-08'' ''Future Client''])]))])
      example_toISO example_now example_now
      (example_request (example_identity ''trainer-1'' ''trainer'') ''trainer-1'' JUndefined))))
        ''data'') ''today_schedule''
     = JArr [example_booking ''book-2'' ''2024-03-07'' ''Today Client'']"
  using today_schedule_of_dashboard
          [where sv = example_services and toISO = example_toISO and now0 = example_now
             and now = example_now
             and req = "example_request (example_identity ''trainer-1'' ''trainer'') ''trainer-1'' JUndefined"
             and backend = "example_backend
               [(''http://localhost:8003/api/bookings?trainer_id=trainer-1&limit=20'',
                 json_ok (JObj [(''data'',
                    JArr [example_booking ''book-1'' ''2024-03-06'' ''Past Client'',
                          example_booking ''book-2'' ''2024-03-07'' ''Today Client'',
                          example_booking ''book-3'' ''2024-03-08'' ''Future Client''])]))]"
             and r = "\<lparr> status = 200, data = JObj [(''data'',
                    JArr [example_booking ''book-1'' ''2024-03-06'' ''Past Client'',
                          example_booking ''book-2'' ''2024-03-07'' ''Today Client'',
                          example_booking ''book-3'' ''2024-03-08'' ''Future Client''])] \<rparr>"
             and bs = "[example_booking ''book-1'' ''2024-03-06'' ''Past Client'',
                          example_booking ''book-2'' ''2024-03-07'' ''Today Client'',
                          example_booking ''book-3'' ''2024-03-08'' ''Future Client'']"]
  by (simp add: trainer_denied_eq example_request_def example_identity_def
      trainer_profile_call_def trainer_programs_call_def trainer_bookings_call_def
      example_services_eq example_backend_def axios_get_def json_ok_def readable_def
      readable_list_def example_booking_def nullish_cases example_dates example_normalised
      example_today)

section \<open>A date that does not parse fails the whole trainer dashboard\<close>

lemma trainer_payload_throws:
  "todaySchedule toISO today bookings = Inl e \<Longrightarrow>
   trainer_payload toISO today profile programs bookings = Inl e"
  by (simp add: trainer_payload_def andThen_def)

text \<open>
  C10. The filter is not total. When the bookings call fulfils with a list in which some
  record's \<open>booking_date\<close> is a string the runtime's \<open>Date\<close> cannot read (while it
  reads the current date's own string), \<open>toISOString\<close> throws inside the filter, and
  the handler's \<open>catch\<close> answers the whole request with DASHBOARD_ERROR at status 500,
  whatever the other slots hold.
\<close>

theorem unparseable_date_fails_dashboard:
  "trainer_denied req = Inr False
   \<and> backend (trainer_bookings_call sv req) = Fulfilled r
   \<and> propOf (data r) ''data'' = JArr bs
   \<and> b \<in> set bs \<and> propOf b ''booking_date'' = JStr s \<and> toISO (JStr s) = None
   \<and> toISO (JStr (split_T_0 now0)) \<noteq> None
   \<longrightarrow> trainerDashboard sv backend toISO now0 now req
        = (\<lparr> res_status = 500,
             res_json = JObj [(''success'', JBool False),
                              (''error'', JObj [(''code'', JStr ''DASHBOARD_ERROR''),
                                                (''message'', JStr ''Failed to load dashboard'')])] \<rparr>,
           trainer_calls sv req)"
proof (intro impI, elim conjE)
  assume pass: "trainer_denied req = Inr False"
    and slot: "backend (trainer_bookings_call sv req) = Fulfilled r"
    and arr: "propOf (data r) ''data'' = JArr bs"
    and mem: "b \<in> set bs" and date: "propOf b ''booking_date'' = JStr s"
    and bad: "toISO (JStr s) = None" and conf: "toISO (JStr (split_T_0 now0)) \<noteq> None"
  from arr have rd: "getProp (data r) ''data'' = Inr (JArr bs)"
    by (cases "data r") (simp_all add: getProp_def nullish_def)
  from date bad conf have thrown: "isToday toISO (split_T_0 now0) b = Inl RangeError"
    by (rule isToday_throws)
  from filter_js_throws[where p = "isToday toISO (split_T_0 now0)", OF mem thrown]
  obtain e' where "filter_js (isToday toISO (split_T_0 now0)) bs = Inl e'" ..
  with slot rd have "todaySchedule toISO (split_T_0 now0) (backend (trainer_bookings_call sv req))
      = Inl e'"
    by (simp add: todaySchedule_def andThen_def)
  then have "trainer_payload toISO (split_T_0 now0) (backend (trainer_profile_call sv req))
      (backend (trainer_programs_call sv req)) (backend (trainer_bookings_call sv req)) = Inl e'"
    by (rule trainer_payload_throws)
  with pass show "trainerDashboard sv backend toISO now0 now req
        = (\<lparr> res_status = 500,
             res_json = JObj [(''success'', JBool False),
                              (''error'', JObj [(''code'', JStr ''DASHBOARD_ERROR''),
                                                (''message'', JStr ''Failed to load dashboard'')])] \<rparr>,
           trainer_calls sv req)"
    by (simp add: trainerDashboard_def Let_def dashboard_error_def error_envelope_def)
qed

theorem unparseable_date_fails_dashboard_witness:
  "trainerDashboard example_services
      (example_backend
         [(''http://localhost:8003/api/bookings?trainer_id=trainer-1&limit=20'',
           json_ok (JObj [(''data'',
              JArr [example_booking ''book-2'' ''2024-03-07'' ''Today Client'',
                    example_booking ''book-9'' ''next tuesday'' ''Walk-in''])]))])
      example_toISO example_now example_now
      (example_request (example_identity ''trainer-1'' ''trainer'') ''trainer-1'' JUndefined)
     = (\<lparr> res_status = 500,
          res_json = JObj [(''success'', JBool False),
                           (''error'', JObj [(''code'', JStr ''DASHBOARD_ERROR''),
                                             (''message'', JStr ''Failed to load dashboard'')])] \<rparr>,
        trainer_calls example_services
          (example_request (example_identity ''trainer-1'' ''trainer'') ''trainer-1'' JUndefined))"
  using unparseable_date_fails_dashboard
          [where sv = example_services and toISO = example_toISO and now0 = example_now
             and now = example_now
             and req = "example_request (example_identity ''trainer-1'' ''trainer'') ''trainer-1'' JUndefined"
             and backend = "example_backend
               [(''http://localhost:8003/api/bookings?trainer_id=trainer-1&limit=20'',
                 json_ok (JObj [(''data'',
                    JArr [example_booking ''book-2'' ''2024-03-07'' ''Today Client'',
                          example_booking ''book-9'' ''next tuesday'' ''Walk-in''])]))]"
             and r = "\<lparr> status = 200, data = JObj [(''data'',
                    JArr [example_booking ''book-2'' ''2024-03-07'' ''Today Client'',
                          example_booking ''book-9'' ''next tuesday'' ''Walk-in''])] \<rparr>"
             and bs = "[example_booking ''book-2'' ''2024-03-07'' ''Today Client'',
                          example_booking ''book-9'' ''next tuesday'' ''Walk-in'']"
             and b = "example_booking ''book-9'' ''next tuesday'' ''Walk-in''"
             and s = "''next tuesday''"]
  by (simp add: trainer_denied_eq example_request_def example_identity_def
      trainer_bookings_call_def example_services_eq example_backend_def axios_get_def
      json_ok_def example_booking_def example_dates example_today)

section \<open>Rate limiter configuration: defaults and overrides\<close>

lemma digit10_range:
  "is_radix_digit 10 c \<longleftrightarrow> 48 \<le> (of_char c :: nat) \<and> (of_char c :: nat) \<le> 57"
  by (auto simp: is_radix_digit_def digit_value_def Let_def split: option.splits if_splits)

lemma digit10_plain:
  assumes "is_radix_digit 10 c"
  shows "\<not> is_white_space c" "c \<noteq> CHR ''+''" "c \<noteq> CHR ''-''" "c \<noteq> CHR ''x''" "c \<noteq> CHR ''X''"
  using assms by (auto simp: digit10_range is_white_space_def)

lemma sign_plain: "\<not> is_white_space (CHR ''+'')" "\<not> is_white_space (CHR ''-'')"
  by (simp_all add: is_white_space_def)

lemma takeWhile_stops:
  assumes "list_all P Z" and "case rest of [] \<Rightarrow> True | c # cs \<Rightarrow> \<not> P c"
  shows "takeWhile P (Z @ rest) = Z"
  using assms by (induction Z) (auto split: list.splits)

lemma dropWhile_white_space:
  assumes "list_all is_white_space w" and "\<not> is_white_space c"
  shows "dropWhile is_white_space (w @ c # t) = c # t"
  using assms by (induction w) simp_all

lemma parseInt_core:
  assumes "dropWhile is_white_space s = S"
    and "(take 1 S = ''-'') = neg"
    and "(if take 1 S = ''+'' \<or> take 1 S = ''-'' then drop 1 S else S) = S1"
    and "(take 2 S1 = ''0x'' \<or> take 2 S1 = ''0X'') = hex"
    and "takeWhile (is_radix_digit (if hex then 16 else 10)) (if hex then drop 2 S1 else S1) = Z"
  shows "parseInt approx s =
     (if Z = [] then NaN
      else toNumber approx ((if neg then - 1 else 1) * int (radix_value (if hex then 16 else 10) Z)))"
proof -
  have "parseInt approx s =
      (if takeWhile (is_radix_digit (if hex then 16 else 10)) (if hex then drop 2 S1 else S1) = []
       then NaN
       else toNumber approx ((if neg then - 1 else 1)
              * int (radix_value (if hex then 16 else 10)
                   (takeWhile (is_radix_digit (if hex then 16 else 10))
                      (if hex then drop 2 S1 else S1)))))"
    unfolding assms(4)[symmetric] assms(3)[symmetric] assms(2)[symmetric] assms(1)[symmetric]
      parseInt_def Let_def ..
  then show ?thesis unfolding assms(5) .
qed

lemma parseInt_after_sign:
  assumes w: "list_all is_white_space w" and sg: "is_sign sg"
    and T: "T = c # cs" and c: "is_radix_digit 10 c"
  shows "parseInt approx (w @ sg @ T) =
     (if takeWhile (is_radix_digit (if hex_prefix (take 2 T) then 16 else 10))
           (if hex_prefix (take 2 T) then drop 2 T else T) = []
      then NaN
      else toNumber approx (sign_of sg
             * int (radix_value (if hex_prefix (take 2 T) then 16 else 10)
                  (takeWhile (is_radix_digit (if hex_prefix (take 2 T) then 16 else 10))
                     (if hex_prefix (take 2 T) then drop 2 T else T)))))"
proof -
  from sg consider "sg = []" | "sg = ''+''" | "sg = ''-''" by (auto simp: is_sign_def)
  then show ?thesis
  proof cases
    case 1
    have a: "dropWhile is_white_space (w @ sg @ T) = T"
      using w c by (simp add: 1 T dropWhile_white_space digit10_plain)
    have b: "(take 1 T = ''-'') = False" using c by (auto simp: T digit10_plain)
    have d: "(if take 1 T = ''+'' \<or> take 1 T = ''-'' then drop 1 T else T) = T"
      using c by (auto simp: T digit10_plain)
    show ?thesis
      using parseInt_core[OF a b d refl refl, of approx]
      by (simp add: hex_prefix_def sign_of_def 1)
  next
    case 2
    have a: "dropWhile is_white_space (w @ sg @ T) = CHR ''+'' # T"
      using w by (simp add: 2 dropWhile_white_space sign_plain)
    have b: "(take 1 (CHR ''+'' # T) = ''-'') = False" by simp
    have d: "(if take 1 (CHR ''+'' # T) = ''+'' \<or> take 1 (CHR ''+'' # T) = ''-''
              then drop 1 (CHR ''+'' # T) else CHR ''+'' # T) = T"
      by simp
    show ?thesis
      using parseInt_core[OF a b d refl refl, of approx]
      by (simp add: hex_prefix_def sign_of_def 2)
  next
    case 3
    have a: "dropWhile is_white_space (w @ sg @ T) = CHR ''-'' # T"
      using w by (simp add: 3 dropWhile_white_space sign_plain)
    have b: "(take 1 (CHR ''-'' # T) = ''-'') = True" by simp
    have d: "(if take 1 (CHR ''-'' # T) = ''+'' \<or> take 1 (CHR ''-'' # T) = ''-''
              then drop 1 (CHR ''-'' # T) else CHR ''-'' # T) = T"
      by simp
    show ?thesis
      using parseInt_core[OF a b d refl refl, of approx]
      by (simp add: hex_prefix_def sign_of_def 3)
  qed
qed

lemma parseInt_leading_decimal:
  assumes "leading_decimal w sg Z rest"
  shows "parseInt approx (w @ sg @ Z @ rest) = toNumber approx (sign_of sg * decimal_value Z)"
proof -
  from assms have w: "list_all is_white_space w" and sg: "is_sign sg"
    and all: "list_all (is_radix_digit 10) Z" and ne: "Z \<noteq> []"
    and st: "case rest of [] \<Rightarrow> True | c # cs \<Rightarrow> \<not> is_radix_digit 10 c"
    and nohex: "\<not> hex_prefix (take 2 (Z @ rest))"
    by (simp_all add: leading_decimal_def decimal_def stops_def)
  from ne all obtain c cs where Z: "Z = c # cs" and c: "is_radix_digit 10 c"
    by (cases Z) auto
  have T: "Z @ rest = c # (cs @ rest)" by (simp add: Z)
  have tw: "takeWhile (is_radix_digit 10) (Z @ rest) = Z"
    using all st by (rule takeWhile_stops)
  from parseInt_after_sign[OF w sg T c, of approx] nohex tw ne
  show ?thesis by (simp add: decimal_value_def)
qed

lemma parseInt_hex_prefix:
  assumes w: "list_all is_white_space w" and sg: "is_sign sg" and p: "hex_prefix p"
  shows "parseInt approx (w @ sg @ p @ U) =
     (if takeWhile (is_radix_digit 16) U = [] then NaN
      else toNumber approx (sign_of sg * int (radix_value 16 (takeWhile (is_radix_digit 16) U))))"
proof -
  from p obtain x where px: "p = [CHR ''0'', x]" and x: "x = CHR ''x'' \<or> x = CHR ''X''"
    by (auto simp: hex_prefix_def)
  have zero: "is_radix_digit 10 (CHR ''0'')" by (simp add: digit10_range)
  have T: "p @ U = CHR ''0'' # (x # U)" by (simp add: px)
  have pre: "hex_prefix (take 2 (p @ U))" "drop 2 (p @ U) = U"
    using p by (simp_all add: px)
  from parseInt_after_sign[OF w sg T zero, of approx] pre
  show ?thesis by simp
qed

lemma parseInt_leading_hexadecimal:
  assumes "leading_hexadecimal w sg p H rest"
  shows "parseInt approx (w @ sg @ p @ H @ rest)
           = toNumber approx (sign_of sg * hexadecimal_value H)"
proof -
  from assms have w: "list_all is_white_space w" and sg: "is_sign sg" and p: "hex_prefix p"
    and all: "list_all (is_radix_digit 16) H" and ne: "H \<noteq> []"
    and st: "case rest of [] \<Rightarrow> True | c # cs \<Rightarrow> \<not> is_radix_digit 16 c"
    by (simp_all add: leading_hexadecimal_def hexadecimal_def stops_def)
  have tw: "takeWhile (is_radix_digit 16) (H @ rest) = H"
    using all st by (rule takeWhile_stops)
  from parseInt_hex_prefix[OF w sg p, of approx "H @ rest"] tw ne
  show ?thesis by (simp add: hexadecimal_value_def)
qed

lemma parseInt_bare_hex_prefix:
  assumes "bare_hex_prefix w sg p rest"
  shows "parseInt approx (w @ sg @ p @ rest) = NaN"
proof -
  from assms have w: "list_all is_white_space w" and sg: "is_sign sg" and p: "hex_prefix p"
    and st: "case rest of [] \<Rightarrow> True | c # cs \<Rightarrow> \<not> is_radix_digit 16 c"
    by (simp_all add: bare_hex_prefix_def stops_def)
  from st have "takeWhile (is_radix_digit 16) rest = []" by (cases rest) simp_all
  with parseInt_hex_prefix[OF w sg p, of approx rest] show ?thesis by simp
qed

lemma parseInt_no_leading_digit:
  assumes "no_leading_digit s"
  shows "parseInt approx s = NaN"
proof -
  define S where "S = dropWhile is_white_space s"
  define S1 where "S1 = (if take 1 S = ''+'' \<or> take 1 S = ''-'' then drop 1 S else S)"
  have nd: "case S1 of [] \<Rightarrow> True | c # cs \<Rightarrow> \<not> is_radix_digit 10 c"
    using assms unfolding no_leading_digit_def Let_def S_def S1_def .
  have zero: "is_radix_digit 10 (CHR ''0'')" by (simp add: digit10_range)
  have hex: "(take 2 S1 = ''0x'' \<or> take 2 S1 = ''0X'') = False"
    using nd zero by (cases S1) auto
  have tw: "takeWhile (is_radix_digit (if False then 16 else 10))
              (if False then drop 2 S1 else S1) = []"
    using nd by (cases S1) simp_all
  from parseInt_core[OF S_def[symmetric] refl S1_def[symmetric] hex tw, of approx]
  show ?thesis by simp
qed

lemma decimal_value_nonneg: "0 \<le> decimal_value Z" "0 \<le> hexadecimal_value H"
  by (simp_all add: decimal_value_def hexadecimal_value_def)

lemma number_or_signed:
  assumes "0 \<le> v" and "v \<le> 2 ^ 53"
  shows "number_or (toNumber approx (sign_of sg * v)) d
           = Finite (if v = 0 then d else sign_of sg * v)"
proof -
  from assms have "\<bar>sign_of sg * v\<bar> \<le> 2 ^ 53" by (simp add: sign_of_def)
  then have "toNumber approx (sign_of sg * v) = Finite (sign_of sg * v)"
    by (simp add: toNumber_def)
  then show ?thesis by (simp add: number_or_def sign_of_def)
qed

lemma parseInt_undefined: "parseInt approx ''undefined'' = NaN"
  by (rule parseInt_no_leading_digit)
     (simp add: no_leading_digit_def is_white_space_def is_radix_digit_def digit_value_def)

lemma example_readings:
  "parseInt approx ''0'' = Finite 0"
  "parseInt approx ''500abc'' = Finite 500"
proof -
  have d0: "leading_decimal [] [] ''0'' []" "decimal_value ''0'' = 0"
    by (simp_all add: leading_decimal_def is_sign_def decimal_def stops_def hex_prefix_def
        decimal_value_def radix_value_def is_radix_digit_def digit_value_def)
  have d5: "leading_decimal [] [] ''500'' ''abc''" "decimal_value ''500'' = 500"
    by (simp_all add: leading_decimal_def is_sign_def decimal_def stops_def hex_prefix_def
        decimal_value_def radix_value_def is_radix_digit_def digit_value_def)
  from parseInt_leading_decimal[OF d0(1), of approx] d0(2)
  show "parseInt approx ''0'' = Finite 0" by (simp add: toNumber_def sign_of_def)
  from parseInt_leading_decimal[OF d5(1), of approx] d5(2)
  show "parseInt approx ''500abc'' = Finite 500" by (simp add: toNumber_def sign_of_def)
qed

text \<open>
  C8, as stated, fails on both sides. The numeric override \<open>0\<close> does not replace the
  default: \<open>parseInt\<close> reads it as 0, which is falsy, so \<open>||\<close> yields the default
  window of 60000. And the override \<open>500abc\<close>, which is not numeric, does not fall back
  to the default: \<open>parseInt\<close> reads its leading digits and the ceiling is 500.
\<close>

theorem override_counterexample:
  "numeric ''0''
   \<and> limiter_windowMs example_approx (example_env ''RATE_LIMIT_WINDOW_MS'' ''0'') = Finite 60000
   \<and> \<not> numeric ''500abc''
   \<and> limiter_max example_approx (example_env ''RATE_LIMIT_MAX_REQUESTS'' ''500abc'') = Finite 500"
proof -
  have n0: "numeric ''0''"
    by (simp add: numeric_def decimal_def is_radix_digit_def digit_value_def)
  have n5: "\<not> numeric ''500abc''"
    by (simp add: numeric_def decimal_def is_radix_digit_def digit_value_def)
  have w: "limiter_windowMs example_approx (example_env ''RATE_LIMIT_WINDOW_MS'' ''0'')
      = Finite 60000"
    by (simp add: limiter_windowMs_def example_env_def parseInt_env_def example_readings
        number_or_def)
  have m: "limiter_max example_approx (example_env ''RATE_LIMIT_MAX_REQUESTS'' ''500abc'')
      = Finite 500"
    by (simp add: limiter_max_def example_env_def parseInt_env_def example_readings
        number_or_def)
  from n0 n5 w m show ?thesis by simp
qed

text \<open>
  C8, amended. Unset, the window is 60000 ms and the ceiling 1000 requests. An override
  is read by \<open>parseInt\<close>: after optional white space and an optional sign, its leading
  decimal digits, or after \<open>0x\<close> or \<open>0X\<close> its leading hexadecimal digits, are the
  number, whatever follows the digits. A number other than 0, of magnitude at most
  \<open>2^53\<close>, replaces the default with its signed value; the number 0 yields the default.
  An override with no digit at that place (none at all, or none after the hexadecimal
  prefix) silently yields the default rather than failing.
\<close>

theorem limiter_configuration:
  "(setting, name, d) \<in> {(limiter_windowMs, ''RATE_LIMIT_WINDOW_MS'', 60000),
                          (limiter_max, ''RATE_LIMIT_MAX_REQUESTS'', 1000)}
   \<longrightarrow> (e name = None \<longrightarrow> setting approx e = Finite d)
     \<and> (e name = Some (w @ sg @ Z @ rest) \<and> leading_decimal w sg Z rest
          \<and> decimal_value Z \<le> 2 ^ 53
        \<longrightarrow> setting approx e = Finite (if decimal_value Z = 0 then d
                                        else sign_of sg * decimal_value Z))
     \<and> (e name = Some (w @ sg @ p @ H @ rest) \<and> leading_hexadecimal w sg p H rest
          \<and> hexadecimal_value H \<le> 2 ^ 53
        \<longrightarrow> setting approx e = Finite (if hexadecimal_value H = 0 then d
                                        else sign_of sg * hexadecimal_value H))
     \<and> (e name = Some (w @ sg @ p @ rest) \<and> bare_hex_prefix w sg p rest
        \<longrightarrow> setting approx e = Finite d)
     \<and> (e name = Some s \<and> no_leading_digit s \<longrightarrow> setting approx e = Finite d)"
proof
  assume "(setting, name, d) \<in> {(limiter_windowMs, ''RATE_LIMIT_WINDOW_MS'', 60000),
                          (limiter_max, ''RATE_LIMIT_MAX_REQUESTS'', 1000)}"
  then have eq: "setting approx e = number_or (parseInt_env approx (e name)) d"
    by (auto simp: limiter_windowMs_def limiter_max_def)
  show "(e name = None \<longrightarrow> setting approx e = Finite d)
     \<and> (e name = Some (w @ sg @ Z @ rest) \<and> leading_decimal w sg Z rest
          \<and> decimal_value Z \<le> 2 ^ 53
        \<longrightarrow> setting approx e = Finite (if decimal_value Z = 0 then d
                                        else sign_of sg * decimal_value Z))
     \<and> (e name = Some (w @ sg @ p @ H @ rest) \<and> leading_hexadecimal w sg p H rest
          \<and> hexadecimal_value H \<le> 2 ^ 53
        \<longrightarrow> setting approx e = Finite (if hexadecimal_value H = 0 then d
                                        else sign_of sg * hexadecimal_value H))
     \<and> (e name = Some (w @ sg @ p @ rest) \<and> bare_hex_prefix w sg p rest
        \<longrightarrow> setting approx e = Finite d)
     \<and> (e name = Some s \<and> no_leading_digit s \<longrightarrow> setting approx e = Finite d)"
  proof (intro conjI impI)
    assume "e name = None"
    then show "setting approx e = Finite d"
      by (simp add: eq parseInt_env_def parseInt_undefined number_or_def)
  next
    assume "e name = Some (w @ sg @ Z @ rest) \<and> leading_decimal w sg Z rest
          \<and> decimal_value Z \<le> 2 ^ 53"
    then show "setting approx e = Finite (if decimal_value Z = 0 then d
                                        else sign_of sg * decimal_value Z)"
      by (simp add: eq parseInt_env_def parseInt_leading_decimal number_or_signed
          decimal_value_nonneg)
  next
    assume "e name = Some (w @ sg @ p @ H @ rest) \<and> leading_hexadecimal w sg p H rest
          \<and> hexadecimal_value H \<le> 2 ^ 53"
    then show "setting approx e = Finite (if hexadecimal_value H = 0 then d
                                        else sign_of sg * hexadecimal_value H)"
      by (simp add: eq parseInt_env_def parseInt_leading_hexadecimal number_or_signed
          decimal_value_nonneg)
  next
    assume "e name = Some (w @ sg @ p @ rest) \<and> bare_hex_prefix w sg p rest"
    then show "setting approx e = Finite d"
      by (simp add: eq parseInt_env_def parseInt_bare_hex_prefix number_or_def)
  next
    assume "e name = Some s \<and> no_leading_digit s"
    then show "setting approx e = Finite d"
      by (simp add: eq parseInt_env_def parseInt_no_leading_digit number_or_def)
  qed
qed

theorem limiter_configuration_witness:
  "limiter_windowMs example_approx (\<lambda>k. None) = Finite 60000
   \<and> limiter_max example_approx (\<lambda>k. None) = Finite 1000
   \<and> limiter_windowMs example_approx (example_env ''RATE_LIMIT_WINDOW_MS'' ''120000'')
       = Finite 120000
   \<and> limiter_max example_approx (example_env ''RATE_LIMIT_MAX_REQUESTS'' ''500'') = Finite 500
   \<and> limiter_max example_approx (example_env ''RATE_LIMIT_MAX_REQUESTS'' '' -42px'')
       = Finite (- 42)
   \<and> limiter_windowMs example_approx (example_env ''RATE_LIMIT_WINDOW_MS'' ''0x1F'') = Finite 31
   \<and> limiter_max example_approx (example_env ''RATE_LIMIT_MAX_REQUESTS'' ''0x'') = Finite 1000
   \<and> limiter_windowMs example_approx (example_env ''RATE_LIMIT_WINDOW_MS'' ''invalid'')
       = Finite 60000"
proof -
  have d1: "leading_decimal [] [] ''120000'' []" "decimal_value ''120000'' = 120000"
    by (simp_all add: leading_decimal_def is_sign_def decimal_def stops_def hex_prefix_def
        decimal_value_def radix_value_def is_radix_digit_def digit_value_def)
  have d2: "leading_decimal [] [] ''500'' []" "decimal_value ''500'' = 500"
    by (simp_all add: leading_decimal_def is_sign_def decimal_def stops_def hex_prefix_def
        decimal_value_def radix_value_def is_radix_digit_def digit_value_def)
  have d3: "leading_decimal '' '' ''-'' ''42'' ''px''" "decimal_value ''42'' = 42"
    by (simp_all add: leading_decimal_def is_sign_def decimal_def stops_def hex_prefix_def
        decimal_value_def radix_value_def is_radix_digit_def digit_value_def
        is_white_space_def)
  have h1: "leading_hexadecimal [] [] ''0x'' ''1F'' []" "hexadecimal_value ''1F'' = 31"
    by (simp_all add: leading_hexadecimal_def is_sign_def hexadecimal_def stops_def
        hex_prefix_def hexadecimal_value_def radix_value_def is_radix_digit_def
        digit_value_def)
  have h2: "bare_hex_prefix [] [] ''0x'' []"
    by (simp add: bare_hex_prefix_def is_sign_def stops_def hex_prefix_def)
  have nd: "no_leading_digit ''invalid''"
    by (simp add: no_leading_digit_def is_white_space_def is_radix_digit_def digit_value_def)
  have w1: "limiter_windowMs example_approx (\<lambda>k. None) = Finite 60000"
    using limiter_configuration
            [where setting = limiter_windowMs and name = "''RATE_LIMIT_WINDOW_MS''"
               and d = 60000 and approx = example_approx and e = "\<lambda>k. None"]
    by simp
  have w2: "limiter_max example_approx (\<lambda>k. None) = Finite 1000"
    using limiter_configuration
            [where setting = limiter_max and name = "''RATE_LIMIT_MAX_REQUESTS''"
               and d = 1000 and approx = example_approx and e = "\<lambda>k. None"]
    by simp
  have w3: "limiter_windowMs example_approx (example_env ''RATE_LIMIT_WINDOW_MS'' ''120000'')
      = Finite 120000"
    using limiter_configuration
            [where setting = limiter_windowMs and name = "''RATE_LIMIT_WINDOW_MS''"
               and d = 60000 and approx = example_approx
               and e = "example_env ''RATE_LIMIT_WINDOW_MS'' ''120000''"
               and w = "[]" and sg = "[]" and Z = "''120000''" and rest = "[]"] d1
    by (simp add: example_env_def sign_of_def)
  have w4: "limiter_max example_approx (example_env ''RATE_LIMIT_MAX_REQUESTS'' ''500'')
      = Finite 500"
    using limiter_configuration
            [where setting = limiter_max and name = "''RATE_LIMIT_MAX_REQUESTS''"
               and d = 1000 and approx = example_approx
               and e = "example_env ''RATE_LIMIT_MAX_REQUESTS'' ''500''"
               and w = "[]" and sg = "[]" and Z = "''500''" and rest = "[]"] d2
    by (simp add: example_env_def sign_of_def)
  have w5: "limiter_max example_approx (example_env ''RATE_LIMIT_MAX_REQUESTS'' '' -42px'')
      = Finite (- 42)"
    using limiter_configuration
            [where setting = limiter_max and name = "''RATE_LIMIT_MAX_REQUESTS''"
               and d = 1000 and approx = example_approx
               and e = "example_env ''RATE_LIMIT_MAX_REQUESTS'' '' -42px''"
               and w = "'' ''" and sg = "''-''" and Z = "''42''" and rest = "''px''"] d3
    by (simp add: example_env_def sign_of_def)
  have w6: "limiter_windowMs example_approx (example_env ''RATE_LIMIT_WINDOW_MS'' ''0x1F'')
      = Finite 31"
    using limiter_configuration
            [where setting = limiter_windowMs and name = "''RATE_LIMIT_WINDOW_MS''"
               and d = 60000 and approx = example_approx
               and e = "example_env ''RATE_LIMIT_WINDOW_MS'' ''0x1F''"
               and w = "[]" and sg = "[]" and p = "''0x''" and H = "''1F''" and rest = "[]"] h1
    by (simp add: example_env_def sign_of_def)
  have w7: "limiter_max example_approx (example_env ''RATE_LIMIT_MAX_REQUESTS'' ''0x'')
      = Finite 1000"
    using limiter_configuration
            [where setting = limiter_max and name = "''RATE_LIMIT_MAX_REQUESTS''"
               and d = 1000 and approx = example_approx
               and e = "example_env ''RATE_LIMIT_MAX_REQUESTS'' ''0x''"
               and w = "[]" and sg = "[]" and p = "''0x''" and rest = "[]"] h2
    by (simp add: example_env_def)
  have w8: "limiter_windowMs example_approx (example_env ''RATE_LIMIT_WINDOW_MS'' ''invalid'')
      = Finite 60000"
    using limiter_configuration
            [where setting = limiter_windowMs and name = "''RATE_LIMIT_WINDOW_MS''"
               and d = 60000 and approx = example_approx
               and e = "example_env ''RATE_LIMIT_WINDOW_MS'' ''invalid''"
               and s = "''invalid''"] nd
    by (simp add: example_env_def)
  from w1 w2 w3 w4 w5 w6 w7 w8 show ?thesis by simp
qed

end
